theory Spec2Isabelle
  imports Complex_Main "HOL-Library.Sublist"
begin

section \<open>Values, exceptions and collaborators\<close>

text \<open>
  The three applications (\<^verbatim>\<open>main.py\<close>, \<^verbatim>\<open>test.py\<close>, \<^verbatim>\<open>news_sentiment_analyzer.py\<close>) are
  embedded function by function. \<^verbatim>\<open>test.py\<close> repeats \<^verbatim>\<open>main.py\<close> up to request headers and
  the name of the poll loop, so one embedding stands for both.

  Python exceptions are values of \<open>error\<close>. \<^verbatim>\<open>json.JSONDecodeError\<close> is a subclass of
  \<^verbatim>\<open>ValueError\<close>; every class under \<^verbatim>\<open>requests.exceptions.RequestException\<close> is the one
  constructor \<open>RequestException\<close>.
\<close>

datatype error =
    RequestException
  | JSONDecodeError
  | KeyError string
  | TypeError
  | AttributeError
  | IndexError
  | ValueError string

fun is_RequestException :: "error \<Rightarrow> bool" where
  "is_RequestException RequestException = True"
| "is_RequestException _ = False"

fun is_ValueError :: "error \<Rightarrow> bool" where
  "is_ValueError (ValueError _) = True"
| "is_ValueError JSONDecodeError = True"
| "is_ValueError _ = False"

text \<open>
  A decoded JSON document as Python holds it. A \<^verbatim>\<open>dict\<close> is an association list of its
  items (each key once), read with \<open>map_of\<close>; a key that is not in the list is absent,
  a key bound to \<open>JNull\<close> is present with the value \<^verbatim>\<open>None\<close>. A string is the list of its
  characters. Numbers are the integers (floats are left out).
\<close>

datatype json =
    JNull
  | JBool bool
  | JInt int
  | JStr string
  | JArr "json list"
  | JObj "(string \<times> json) list"

record response =
  status_code :: int
  json_body :: "error + json"   \<comment> \<open>what \<^verbatim>\<open>response.json()\<close> returns or raises\<close>

text \<open>
  Objects of the remote execution service. A \<open>run\<close> is both what \<^verbatim>\<open>runs.create\<close> stored in
  \<^verbatim>\<open>self.run\<close> and what \<^verbatim>\<open>runs.retrieve\<close> answers to a poll; \<open>required_action\<close> holds the tool
  calls of \<^verbatim>\<open>required_action.submit_tool_outputs\<close> and is \<open>None\<close> when the attribute is \<^verbatim>\<open>None\<close>.
\<close>

datatype thread = Thread (thread_ident: string)

datatype assistant = Assistant (assistant_ident: string)

record tool_call =
  call_ident :: string
  func_name :: string
  arguments :: string

record run =
  run_ident :: string
  status :: string
  required_action :: "tool_call list option"

datatype content_block = TextBlock string | ImageFileBlock

record message =
  role :: string
  content :: "content_block list"

record tool_output =
  tool_call_id :: string
  output_str :: string   \<comment> \<open>the key \<^verbatim>\<open>output\<close>\<close>

text \<open>
  The collaborators are parameters of the model: the environment variable,
  \<^verbatim>\<open>requests.get\<close> (what a GET of a URL returns or raises), the JSON decoder, Python's
  \<^verbatim>\<open>repr\<close> of a list or dict, and the answers of the remote execution service. Output
  printed to the console is not modelled.
\<close>

record env =
  news_api_key :: "string option"
  requests_get :: "string \<Rightarrow> error + response"
  json_decode :: "string \<Rightarrow> json option"  \<comment> \<open>the document a text denotes, if it is JSON\<close>
  repr_container :: "json \<Rightarrow> string"
  threads_create :: "nat \<Rightarrow> thread"        \<comment> \<open>the thread the n-th creation returns\<close>
  messages_list :: "string \<Rightarrow> message list"  \<comment> \<open>the listing of a thread, as the service orders it\<close>
  runs_retrieve :: "nat \<Rightarrow> run"             \<comment> \<open>the answer to the k-th poll of a wait\<close>

subsection \<open>Python operations on decoded JSON\<close>

text \<open>
  \<^verbatim>\<open>str\<close> of an integer: the decimal digits are produced from the last one, in front of
  those already found.
\<close>

fun decimal :: "nat \<Rightarrow> string \<Rightarrow> string" where
  "decimal n found =
     (let found' = (''0123456789'' ! (n mod 10)) # found
      in if n div 10 = 0 then found' else decimal (n div 10) found')"

definition str_nat :: "nat \<Rightarrow> string" where
  "str_nat n = decimal n []"

definition str_int :: "int \<Rightarrow> string" where
  "str_int i = (if 0 \<le> i then str_nat (nat i) else CHR ''-'' # str_nat (nat (- i)))"

text \<open>\<^verbatim>\<open>str(v)\<close>, as an f-string applies it to an interpolated value.\<close>

fun py_str :: "env \<Rightarrow> json \<Rightarrow> string" where
  "py_str w JNull = ''None''"
| "py_str w (JBool b) = (if b then ''True'' else ''False'')"
| "py_str w (JInt i) = str_int i"
| "py_str w (JStr s) = s"
| "py_str w (JArr xs) = repr_container w (JArr xs)"
| "py_str w (JObj kvs) = repr_container w (JObj kvs)"

text \<open>\<^verbatim>\<open>v[key]\<close> with a string key: only a dict can be indexed by a string.\<close>

fun py_getitem :: "json \<Rightarrow> string \<Rightarrow> error + json" where
  "py_getitem (JObj kvs) k = (case map_of kvs k of None \<Rightarrow> Inl (KeyError k) | Some v \<Rightarrow> Inr v)"
| "py_getitem _ k = Inl TypeError"

text \<open>\<^verbatim>\<open>v.get(key, default)\<close>: only a dict has the method.\<close>

fun py_get :: "json \<Rightarrow> string \<Rightarrow> json \<Rightarrow> error + json" where
  "py_get (JObj kvs) k d = (case map_of kvs k of None \<Rightarrow> Inr d | Some v \<Rightarrow> Inr v)"
| "py_get _ k d = Inl AttributeError"

text \<open>
  The items a \<^verbatim>\<open>for\<close> loop visits: the elements of a list, the characters of a string,
  the keys of a dict; nothing else is iterable.
\<close>

fun py_iter :: "json \<Rightarrow> error + json list" where
  "py_iter (JArr xs) = Inr xs"
| "py_iter (JStr s) = Inr (map (\<lambda>c. JStr [c]) s)"
| "py_iter (JObj kvs) = Inr (map (\<lambda>kv. JStr (fst kv)) kvs)"
| "py_iter _ = Inl TypeError"

text \<open>
  \<^verbatim>\<open>v[:200]\<close>: strings and lists can be sliced, \<^verbatim>\<open>None\<close>, numbers and booleans cannot. A
  dict rejects the slice as a key (\<^verbatim>\<open>TypeError\<close>; \<^verbatim>\<open>KeyError\<close> from Python 3.12 on, which is
  not a \<^verbatim>\<open>RequestException\<close> either).
\<close>

fun py_slice200 :: "json \<Rightarrow> error + json" where
  "py_slice200 (JStr s) = Inr (JStr (take 200 s))"
| "py_slice200 (JArr xs) = Inr (JArr (take 200 xs))"
| "py_slice200 _ = Inl TypeError"

text \<open>\<^verbatim>\<open>json.loads(s)\<close> on a string: the decoded document, or \<^verbatim>\<open>JSONDecodeError\<close>.\<close>

definition json_loads :: "env \<Rightarrow> string \<Rightarrow> error + json" where
  "json_loads w s = (case json_decode w s of None \<Rightarrow> Inl JSONDecodeError | Some v \<Rightarrow> Inr v)"

text \<open>Sequencing of steps that may raise, and a loop body run over a list until one raises.\<close>

definition bind :: "error + 'a \<Rightarrow> ('a \<Rightarrow> error + 'b) \<Rightarrow> error + 'b" where
  "bind m f = (case m of Inl e \<Rightarrow> Inl e | Inr v \<Rightarrow> f v)"

fun for_each :: "('a \<Rightarrow> error + 'b) \<Rightarrow> 'a list \<Rightarrow> error + 'b list" where
  "for_each f [] = Inr []"
| "for_each f (x # xs) =
     (case f x of
        Inl e \<Rightarrow> Inl e
      | Inr y \<Rightarrow> (case for_each f xs of Inl e \<Rightarrow> Inl e | Inr ys \<Rightarrow> Inr (y # ys)))"

text \<open>
  \<^verbatim>\<open>try: ... except requests.exceptions.RequestException: return []\<close> around a body.
\<close>

definition except_RequestException :: "error + string list \<Rightarrow> error + string list" where
  "except_RequestException r =
     (case r of
        Inl e \<Rightarrow> if is_RequestException e then Inr [] else Inl e
      | Inr v \<Rightarrow> Inr v)"

section \<open>The news fetch\<close>

subsection \<open>\<^verbatim>\<open>get_news\<close> (main.py, test.py)\<close>

definition news_url :: "env \<Rightarrow> json \<Rightarrow> string" where
  "news_url w topic =
     ''https://newsapi.org/v2/everything?q='' @ py_str w topic @ ''&apiKey=''
       @ (case news_api_key w of None \<Rightarrow> ''None'' | Some k \<Rightarrow> k) @ ''&pageSize=5''"

text \<open>The body of the loop over the articles: the subscript reads in source order, then the f-string.\<close>

definition title_description :: "env \<Rightarrow> json \<Rightarrow> error + string" where
  "title_description w article =
     bind (py_getitem article ''source'') (\<lambda>source.
     bind (py_getitem source ''name'') (\<lambda>source_name.
     bind (py_getitem article ''author'') (\<lambda>author.
     bind (py_getitem article ''title'') (\<lambda>title.
     bind (py_getitem article ''description'') (\<lambda>description.
     bind (py_getitem article ''url'') (\<lambda>url.
     bind (py_getitem article ''content'') (\<lambda>content.
       Inr (''\<newline>                   Title: '' @ py_str w title @ '', ''
          @ ''\<newline>                   Author: '' @ py_str w author @ '',''
          @ ''\<newline>                   Source: '' @ py_str w source_name @ '',''
          @ ''\<newline>                   Description: '' @ py_str w description @ '',''
          @ ''\<newline>                   URL: '' @ py_str w url
          @ ''\<newline>            \<newline>                ''))))))))"

text \<open>
  The branch for status 200. \<^verbatim>\<open>json.loads(json.dumps(x, indent=4))\<close> gives \<open>x\<close> back, so
  \<open>data\<close> is the decoded body.
\<close>

definition get_news_ok :: "env \<Rightarrow> response \<Rightarrow> error + string list" where
  "get_news_ok w resp =
     bind (json_body resp) (\<lambda>data.
     bind (py_getitem data ''status'') (\<lambda>status.
     bind (py_getitem data ''totalResults'') (\<lambda>total_results.
     bind (py_getitem data ''articles'') (\<lambda>articles.
     bind (py_iter articles) (\<lambda>items.
       for_each (title_description w) items)))))"

definition get_news :: "env \<Rightarrow> json \<Rightarrow> error + string list" where
  "get_news w topic =
     except_RequestException
       (bind (requests_get w (news_url w topic)) (\<lambda>resp.
          if status_code resp = 200 then get_news_ok w resp else Inr []))"

subsection \<open>\<^verbatim>\<open>get_news_for_sentiment\<close> (news_sentiment_analyzer.py)\<close>

definition sentiment_url :: "env \<Rightarrow> json \<Rightarrow> json \<Rightarrow> string" where
  "sentiment_url w topic page_size =
     ''https://newsapi.org/v2/everything?'' @ ''q='' @ py_str w topic @ ''&''
       @ ''apiKey='' @ (case news_api_key w of None \<Rightarrow> ''None'' | Some k \<Rightarrow> k) @ ''&''
       @ ''pageSize='' @ py_str w page_size @ ''&'' @ ''sortBy=publishedAt&'' @ ''language=en''"

text \<open>The loop body; \<open>i\<close> is the index \<^verbatim>\<open>enumerate\<close> supplies, from 0.\<close>

definition article_text :: "env \<Rightarrow> nat \<Rightarrow> json \<Rightarrow> error + string" where
  "article_text w i article =
     bind (py_get article ''title'' (JStr ''No title'')) (\<lambda>title.
     bind (py_get article ''description'' (JStr ''No description'')) (\<lambda>description.
     bind (py_get article ''source'' (JObj [])) (\<lambda>source.
     bind (py_get source ''name'' (JStr ''Unknown source'')) (\<lambda>source_name.
     bind (py_get article ''publishedAt'' (JStr ''Unknown date'')) (\<lambda>published_at.
     bind (py_get article ''content'' (JStr ''No content'')) (\<lambda>content.
     bind (py_slice200 content) (\<lambda>snippet.
       Inr (''\<newline>                Article '' @ str_nat (i + 1) @ '':''
          @ ''\<newline>                Title: '' @ py_str w title
          @ ''\<newline>                Source: '' @ py_str w source_name
          @ ''\<newline>                Published: '' @ py_str w published_at
          @ ''\<newline>                Description: '' @ py_str w description
          @ ''\<newline>                Content: '' @ py_str w snippet @ ''...''
          @ ''\<newline>                ---''
          @ ''\<newline>                ''))))))))"

definition get_news_for_sentiment_ok :: "env \<Rightarrow> response \<Rightarrow> error + string list" where
  "get_news_for_sentiment_ok w resp =
     bind (json_body resp) (\<lambda>data.
     bind (py_get data ''articles'' (JArr [])) (\<lambda>articles.
     bind (py_iter articles) (\<lambda>items.
       for_each (\<lambda>(i, article). article_text w i article) (enumerate 0 items))))"

definition get_news_for_sentiment :: "env \<Rightarrow> json \<Rightarrow> json \<Rightarrow> error + string list" where
  "get_news_for_sentiment w topic page_size =
     except_RequestException
       (bind (requests_get w (sentiment_url w topic page_size)) (\<lambda>resp.
          if status_code resp = 200 then get_news_for_sentiment_ok w resp else Inr []))"


section \<open>The managers\<close>

text \<open>
  Calls that reach the remote service, and the sleeps of the poll loop, are recorded in
  \<open>calls\<close> in the order they happen. \<open>thread_id\<close> and \<open>assistant_id\<close> are the class
  attributes, shared by all instances of the process; the other fields belong to the
  instance. Calls of the remote service are taken to return.
\<close>

datatype api_call =
    AssistantsRetrieve string
  | ThreadsCreate
  | ThreadsRetrieve string
  | MessagesList string
  | RunsRetrieve string string
  | SubmitToolOutputs string string "tool_output list"
  | Sleep nat

record manager =
  thread_id :: "string option"
  assistant_id :: "string option"
  assistant :: "assistant option"
  thread :: "thread option"
  run :: "run option"
  calls :: "api_call list"

record assistant_manager = manager +
  summary :: "string option"

record sentiment_manager = manager +
  sentiment_analysis :: "string option"

text \<open>
  How a method ends: it returns, it raises, or (the poll loop only) it is still running
  when the iterations granted to it are used up. Each case carries the state reached.
\<close>

datatype 's outcome = Returned 's | Raised error 's | Running 's

subsection \<open>\<^verbatim>\<open>AssistantManager\<close> (main.py, test.py)\<close>

text \<open>
  \<^verbatim>\<open>__init__\<close>: a new instance in a process whose class attributes and call history are
  those of \<open>p\<close>. A cached identifier counts when it is a non-empty string.
\<close>

definition init :: "assistant_manager \<Rightarrow> assistant_manager" where
  "init p =
     (let a = (case assistant_id p of
                 None \<Rightarrow> None | Some i \<Rightarrow> if i = [] then None else Some i);
          t = (case thread_id p of
                 None \<Rightarrow> None | Some i \<Rightarrow> if i = [] then None else Some i)
      in p\<lparr> assistant := map_option Assistant a,
            thread := map_option Thread t,
            run := None,
            summary := None,
            calls := calls p
              @ (case a of None \<Rightarrow> [] | Some i \<Rightarrow> [AssistantsRetrieve i])
              @ (case t of None \<Rightarrow> [] | Some i \<Rightarrow> [ThreadsRetrieve i]) \<rparr>)"

definition threads_created :: "api_call list \<Rightarrow> nat" where
  "threads_created cs = length (filter (\<lambda>c. c = ThreadsCreate) cs)"

definition create_thread :: "env \<Rightarrow> 'a manager_scheme \<Rightarrow> 'a manager_scheme" where
  "create_thread w self =
     (case thread self of
        Some t \<Rightarrow> self
      | None \<Rightarrow>
          (let thread_obj = threads_create w (threads_created (calls self))
           in self\<lparr> thread_id := Some (thread_ident thread_obj),
                    thread := Some thread_obj,
                    calls := calls self @ [ThreadsCreate] \<rparr>))"

text \<open>
  The class attributes and the call history belong to the process, the other fields to one
  instance. \<open>instance_in p m\<close> is the instance \<open>m\<close> once the process has reached the state
  of \<open>p\<close>: its own fields, the class attributes and history of \<open>p\<close>.
\<close>

definition instance_in :: "assistant_manager \<Rightarrow> assistant_manager \<Rightarrow> assistant_manager" where
  "instance_in p m =
     p\<lparr> assistant := assistant m, thread := thread m, run := run m, summary := summary m \<rparr>"

definition process_message :: "env \<Rightarrow> assistant_manager \<Rightarrow> assistant_manager outcome" where
  "process_message w self =
     (case thread self of
        None \<Rightarrow> Returned self
      | Some t \<Rightarrow>
          (let self1 = self\<lparr> calls := calls self @ [MessagesList (thread_ident t)] \<rparr>
           in case messages_list w (thread_ident t) of
                [] \<Rightarrow> Raised IndexError self1
              | last_message # _ \<Rightarrow>
                  (case content last_message of
                     [] \<Rightarrow> Raised IndexError self1
                   | TextBlock response # _ \<Rightarrow> Returned (self1\<lparr> summary := Some response \<rparr>)
                   | ImageFileBlock # _ \<Rightarrow> Raised AttributeError self1)))"

text \<open>The body of the loop over the tool calls: one output, or the exception raised.\<close>

definition resolve_call :: "env \<Rightarrow> tool_call \<Rightarrow> error + tool_output" where
  "resolve_call w action =
     bind (json_loads w (arguments action)) (\<lambda>args.
       if func_name action = ''get_news'' then
         bind (py_getitem args ''topic'') (\<lambda>topic.
         bind (get_news w topic) (\<lambda>out.
           Inr \<lparr> tool_call_id = call_ident action, output_str = concat out \<rparr>))
       else Inl (ValueError (''Unknown function: '' @ func_name action)))"

definition call_required_functions ::
  "env \<Rightarrow> assistant_manager \<Rightarrow> tool_call list \<Rightarrow> assistant_manager outcome" where
  "call_required_functions w self tool_calls =
     (case run self of
        None \<Rightarrow> Returned self
      | Some r \<Rightarrow>
          (case for_each (resolve_call w) tool_calls of
             Inl e \<Rightarrow> Raised e self
           | Inr tool_outputs \<Rightarrow>
               (case thread self of
                  None \<Rightarrow> Raised AttributeError self
                | Some t \<Rightarrow>
                    Returned (self\<lparr> calls := calls self
                      @ [SubmitToolOutputs (thread_ident t) (run_ident r) tool_outputs] \<rparr>))))"

text \<open>
  The \<^verbatim>\<open>while True\<close> loop of \<^verbatim>\<open>wait_for_run_completion\<close> (\<^verbatim>\<open>wait_for_completion\<close> in test.py),
  given a number of iterations; \<open>k\<close> counts the polls made so far. Each iteration sleeps,
  reads \<^verbatim>\<open>self.thread.id\<close> and \<^verbatim>\<open>self.run.id\<close>, polls, and acts on the status.
\<close>

fun poll_loop :: "nat \<Rightarrow> env \<Rightarrow> nat \<Rightarrow> assistant_manager \<Rightarrow> assistant_manager outcome" where
  "poll_loop 0 w k self = Running self"
| "poll_loop (Suc fuel) w k self =
     (let slept = self\<lparr> calls := calls self @ [Sleep 5] \<rparr>
      in case thread slept of
        None \<Rightarrow> Raised AttributeError slept
      | Some t \<Rightarrow>
     (case run slept of
        None \<Rightarrow> Raised AttributeError slept
      | Some r \<Rightarrow>
          (let self1 = slept\<lparr> calls := calls slept
                 @ [RunsRetrieve (thread_ident t) (run_ident r)] \<rparr>;
               run_status = runs_retrieve w k
           in if status run_status = ''completed'' then process_message w self1
              else if status run_status = ''requires_action'' then
                (case required_action run_status of
                   None \<Rightarrow> Raised AttributeError self1
                 | Some tool_calls \<Rightarrow>
                     (case call_required_functions w self1 tool_calls of
                        Returned self2 \<Rightarrow> poll_loop fuel w (Suc k) self2
                      | Raised e self2 \<Rightarrow> Raised e self2
                      | Running self2 \<Rightarrow> Running self2))
              else poll_loop fuel w (Suc k) self1)))"

definition wait_for_run_completion ::
  "nat \<Rightarrow> env \<Rightarrow> assistant_manager \<Rightarrow> assistant_manager outcome" where
  "wait_for_run_completion fuel w self =
     (if thread self \<noteq> None \<and> run self \<noteq> None then poll_loop fuel w 0 self
      else Returned self)"

definition get_summary :: "assistant_manager \<Rightarrow> string option" where
  "get_summary self = summary self"

subsection \<open>\<^verbatim>\<open>SentimentAssistantManager\<close> (news_sentiment_analyzer.py)\<close>

definition process_sentiment_results ::
  "env \<Rightarrow> sentiment_manager \<Rightarrow> sentiment_manager outcome" where
  "process_sentiment_results w self =
     (case thread self of
        None \<Rightarrow> Returned self
      | Some t \<Rightarrow>
          (let self1 = self\<lparr> calls := calls self @ [MessagesList (thread_ident t)] \<rparr>
           in case messages_list w (thread_ident t) of
                [] \<Rightarrow> Raised IndexError self1
              | last_message # _ \<Rightarrow>
                  (case content last_message of
                     [] \<Rightarrow> Raised IndexError self1
                   | TextBlock sentiment_response # _ \<Rightarrow>
                       Returned (self1\<lparr> sentiment_analysis := Some sentiment_response \<rparr>)
                   | ImageFileBlock # _ \<Rightarrow> Raised AttributeError self1)))"

text \<open>\<^verbatim>\<open>sep.join(xs)\<close> on a list of strings.\<close>

fun join :: "string \<Rightarrow> string list \<Rightarrow> string" where
  "join sep [] = []"
| "join sep [x] = x"
| "join sep (x # y # ys) = x @ sep @ join sep (y # ys)"

definition resolve_sentiment_call :: "env \<Rightarrow> tool_call \<Rightarrow> error + tool_output" where
  "resolve_sentiment_call w action =
     bind (json_loads w (arguments action)) (\<lambda>args.
       if func_name action = ''get_news_for_sentiment'' then
         bind (py_getitem args ''topic'') (\<lambda>topic.
         bind (py_get args ''page_size'' (JInt 10)) (\<lambda>page_size.
         bind (get_news_for_sentiment w topic page_size) (\<lambda>articles.
           Inr \<lparr> tool_call_id = call_ident action, output_str = join ''\<newline>'' articles \<rparr>)))
       else Inl (ValueError (''Unknown function: '' @ func_name action)))"

definition call_sentiment_functions ::
  "env \<Rightarrow> sentiment_manager \<Rightarrow> tool_call list \<Rightarrow> sentiment_manager outcome" where
  "call_sentiment_functions w self tool_calls =
     (case run self of
        None \<Rightarrow> Returned self
      | Some r \<Rightarrow>
          (case for_each (resolve_sentiment_call w) tool_calls of
             Inl e \<Rightarrow> Raised e self
           | Inr tool_outputs \<Rightarrow>
               (case thread self of
                  None \<Rightarrow> Raised AttributeError self
                | Some t \<Rightarrow>
                    Returned (self\<lparr> calls := calls self
                      @ [SubmitToolOutputs (thread_ident t) (run_ident r) tool_outputs] \<rparr>))))"

fun sentiment_poll_loop ::
  "nat \<Rightarrow> env \<Rightarrow> nat \<Rightarrow> sentiment_manager \<Rightarrow> sentiment_manager outcome" where
  "sentiment_poll_loop 0 w k self = Running self"
| "sentiment_poll_loop (Suc fuel) w k self =
     (let slept = self\<lparr> calls := calls self @ [Sleep 5] \<rparr>
      in case thread slept of
        None \<Rightarrow> Raised AttributeError slept
      | Some t \<Rightarrow>
     (case run slept of
        None \<Rightarrow> Raised AttributeError slept
      | Some r \<Rightarrow>
          (let self1 = slept\<lparr> calls := calls slept
                 @ [RunsRetrieve (thread_ident t) (run_ident r)] \<rparr>;
               run_status = runs_retrieve w k
           in if status run_status = ''completed'' then process_sentiment_results w self1
              else if status run_status = ''requires_action'' then
                (case required_action run_status of
                   None \<Rightarrow> Raised AttributeError self1
                 | Some tool_calls \<Rightarrow>
                     (case call_sentiment_functions w self1 tool_calls of
                        Returned self2 \<Rightarrow> sentiment_poll_loop fuel w (Suc k) self2
                      | Raised e self2 \<Rightarrow> Raised e self2
                      | Running self2 \<Rightarrow> Running self2))
              else sentiment_poll_loop fuel w (Suc k) self1)))"

definition wait_for_sentiment_completion ::
  "nat \<Rightarrow> env \<Rightarrow> sentiment_manager \<Rightarrow> sentiment_manager outcome" where
  "wait_for_sentiment_completion fuel w self =
     (if thread self \<noteq> None \<and> run self \<noteq> None then sentiment_poll_loop fuel w 0 self
      else Returned self)"

subsection \<open>\<^verbatim>\<open>parse_sentiment_data\<close>\<close>

text \<open>
  \<^verbatim>\<open>str.lower\<close> on the ASCII letters and \<^verbatim>\<open>needle in text\<close>. The words searched for are
  ASCII, and no character outside ASCII lowers to a run of characters that completes one
  of them.
\<close>

definition lower_char :: "char \<Rightarrow> char" where
  "lower_char c =
     (let n = (of_char c :: nat) in if 65 \<le> n \<and> n \<le> 90 then char_of (n + 32) else c)"

definition lower :: "string \<Rightarrow> string" where
  "lower s = map lower_char s"

fun py_in :: "string \<Rightarrow> string \<Rightarrow> bool" where
  "py_in needle [] = (needle = [])"
| "py_in needle (c # cs) = (prefix needle (c # cs) \<or> py_in needle cs)"

record sentiment_data =
  score :: real
  category :: string
  confidence :: int
  analysis :: string

definition parse_sentiment_data :: "sentiment_manager \<Rightarrow> sentiment_data option" where
  "parse_sentiment_data self =
     (case sentiment_analysis self of
        None \<Rightarrow> None
      | Some text \<Rightarrow>
          if text = [] then None
          else
            (let analysis_text = lower text;
                 (score, category) =
                   (if py_in ''positive'' analysis_text then
                      ((if py_in ''very positive'' analysis_text
                           \<or> py_in ''highly positive'' analysis_text then 0.8
                        else if py_in ''moderately positive'' analysis_text then 0.5
                        else 0.3), ''Positive'')
                    else if py_in ''negative'' analysis_text then
                      ((if py_in ''very negative'' analysis_text
                           \<or> py_in ''highly negative'' analysis_text then - 0.8
                        else if py_in ''moderately negative'' analysis_text then - 0.5
                        else - 0.3), ''Negative'')
                    else (0.0, ''Neutral''))
             in Some \<lparr> score = score, category = category, confidence = 85,
                       analysis = text \<rparr>))"

section \<open>Observations on outcomes and call histories\<close>

fun state_of :: "'s outcome \<Rightarrow> 's" where
  "state_of (Returned s) = s"
| "state_of (Raised e s) = s"
| "state_of (Running s) = s"

text \<open>
  A call history is \<open>paced\<close> when every status check comes directly after a sleep of 5 and
  no other sleep occurs.
\<close>

fun paced :: "api_call list \<Rightarrow> bool" where
  "paced [] = True"
| "paced (Sleep d # RunsRetrieve t r # cs) = (d = 5 \<and> paced cs)"
| "paced (Sleep d # cs) = False"
| "paced (RunsRetrieve t r # cs) = False"
| "paced (c # cs) = paced cs"

text \<open>The history of \<open>n\<close> iterations that only sleep and poll.\<close>

definition polls :: "nat \<Rightarrow> thread \<Rightarrow> run \<Rightarrow> api_call list" where
  "polls n t r = concat (replicate n [Sleep 5, RunsRetrieve (thread_ident t) (run_ident r)])"

text \<open>\<open>paced_from old now\<close>: the history \<open>now\<close> extends \<open>old\<close>, and what was added is paced.\<close>

definition paced_from :: "api_call list \<Rightarrow> api_call list \<Rightarrow> bool" where
  "paced_from old now = (take (length old) now = old \<and> paced (drop (length old) now))"

section \<open>Sample inputs\<close>

text \<open>
  A search answer with two articles: the first has every key (its author is \<^verbatim>\<open>null\<close>), the
  second has neither the key \<^verbatim>\<open>author\<close> nor the key \<^verbatim>\<open>description\<close>.
\<close>

definition article_complete :: json where
  "article_complete =
     JObj [(''source'', JObj [(''id'', JNull), (''name'', JStr ''Wired'')]),
           (''author'', JNull), (''title'', JStr ''Bitcoin up''),
           (''description'', JStr ''Prices rose''), (''url'', JStr ''https://a.example/1''),
           (''publishedAt'', JStr ''2025-01-01T00:00:00Z''), (''content'', JStr ''Text one'')]"

definition article_sparse :: json where
  "article_sparse =
     JObj [(''source'', JObj [(''id'', JNull), (''name'', JStr ''BBC'')]),
           (''title'', JStr ''Bitcoin down''), (''url'', JStr ''https://a.example/2''),
           (''publishedAt'', JStr ''2025-01-02T00:00:00Z''), (''content'', JStr ''Text two'')]"

definition search_body :: "json list \<Rightarrow> json" where
  "search_body articles =
     JObj [(''status'', JStr ''ok''), (''totalResults'', JInt (int (length articles))),
           (''articles'', JArr articles)]"

definition net_ok :: "json list \<Rightarrow> string \<Rightarrow> error + response" where
  "net_ok articles url = Inr \<lparr> status_code = 200, json_body = Inr (search_body articles) \<rparr>"

definition net_500 :: "string \<Rightarrow> error + response" where
  "net_500 url = Inr \<lparr> status_code = 500, json_body = Inl JSONDecodeError \<rparr>"

definition net_down :: "string \<Rightarrow> error + response" where
  "net_down url = Inl RequestException"

definition decode_sample :: "string \<Rightarrow> json option" where
  "decode_sample s =
     (if s = ''{\"topic\": \"bitcoin\"}'' then Some (JObj [(''topic'', JStr ''bitcoin'')])
      else if s = ''{}'' then Some (JObj [])
      else None)"

definition run_answer :: "string \<Rightarrow> run" where
  "run_answer s = \<lparr> run_ident = ''run_1'', status = s, required_action = None \<rparr>"

text \<open>
  A world over a given network and a given sequence of poll answers. The thread's listing
  holds the user's request only.
\<close>

definition world :: "(string \<Rightarrow> error + response) \<Rightarrow> (nat \<Rightarrow> run) \<Rightarrow> env" where
  "world net answers =
     \<lparr> news_api_key = Some ''KEY'',
       requests_get = net,
       json_decode = decode_sample,
       repr_container = (\<lambda>v. ''[...]''),
       threads_create = (\<lambda>n. Thread (''thread_'' @ str_nat n)),
       messages_list = (\<lambda>t. [\<lparr> role = ''user'',
           content = [TextBlock ''summarize the news on this topic bitcoin?''] \<rparr>]),
       runs_retrieve = answers \<rparr>"

definition always_failed :: "nat \<Rightarrow> run" where
  "always_failed k = run_answer ''failed''"

definition world_empty_listing :: env where
  "world_empty_listing = (world (net_ok [article_complete]) always_failed)\<lparr> messages_list := (\<lambda>t. []) \<rparr>"

definition manager0 :: assistant_manager where
  "manager0 = \<lparr> thread_id = None, assistant_id = None, assistant = None, thread = None,
                 run = None, calls = [], summary = None \<rparr>"

definition manager1 :: assistant_manager where
  "manager1 = \<lparr> thread_id = Some ''thread_0'', assistant_id = Some ''asst_1'',
                 assistant = Some (Assistant ''asst_1''), thread = Some (Thread ''thread_0''),
                 run = Some (run_answer ''in_progress''),
                 calls = [ThreadsCreate], summary = None \<rparr>"

definition sentiment1 :: sentiment_manager where
  "sentiment1 = \<lparr> thread_id = Some ''thread_0'', assistant_id = Some ''asst_1'',
                   assistant = Some (Assistant ''asst_1''), thread = Some (Thread ''thread_0''),
                   run = Some (run_answer ''in_progress''),
                   calls = [ThreadsCreate], sentiment_analysis = None \<rparr>"

definition call_news :: tool_call where
  "call_news = \<lparr> call_ident = ''call_1'', func_name = ''get_news'',
                  arguments = ''{\"topic\": \"bitcoin\"}'' \<rparr>"

definition call_sentiment :: tool_call where
  "call_sentiment = \<lparr> call_ident = ''call_1'', func_name = ''get_news_for_sentiment'',
                       arguments = ''{\"topic\": \"bitcoin\"}'' \<rparr>"

definition call_no_topic :: tool_call where
  "call_no_topic = \<lparr> call_ident = ''call_1'', func_name = ''get_news'', arguments = ''{}'' \<rparr>"

definition call_news_again :: tool_call where
  "call_news_again = \<lparr> call_ident = ''call_2'', func_name = ''get_news'',
                        arguments = ''{\"topic\": \"bitcoin\"}'' \<rparr>"

definition call_sentiment_again :: tool_call where
  "call_sentiment_again = \<lparr> call_ident = ''call_2'', func_name = ''get_news_for_sentiment'',
                             arguments = ''{\"topic\": \"bitcoin\"}'' \<rparr>"

definition call_sentiment_no_topic :: tool_call where
  "call_sentiment_no_topic = \<lparr> call_ident = ''call_1'', func_name = ''get_news_for_sentiment'',
                                arguments = ''{}'' \<rparr>"

definition call_unknown :: tool_call where
  "call_unknown = \<lparr> call_ident = ''call_3'', func_name = ''get_weather'', arguments = ''{}'' \<rparr>"

definition call_unknown_undecodable :: tool_call where
  "call_unknown_undecodable =
     \<lparr> call_ident = ''call_4'', func_name = ''get_weather'', arguments = ''topic=bitcoin'' \<rparr>"

definition news_world :: env where
  "news_world = world (net_ok [article_complete]) always_failed"

text \<open>
  Poll answers for a run that first asks for one fetch, is then in progress, and is
  completed from the third poll on.
\<close>

definition scripted :: "nat \<Rightarrow> run" where
  "scripted k =
     (if k = 0 then \<lparr> run_ident = ''run_1'', status = ''requires_action'',
                      required_action = Some [call_news] \<rparr>
      else if k = 1 then run_answer ''in_progress''
      else run_answer ''completed'')"

definition sentiment_of :: "string \<Rightarrow> sentiment_manager" where
  "sentiment_of text = sentiment1\<lparr> sentiment_analysis := Some text \<rparr>"

section \<open>Auxiliary facts\<close>

lemma bind_Inl [simp]: "bind (Inl e) f = Inl e"
  by (simp add: bind_def)

lemma bind_Inr [simp]: "bind (Inr v) f = f v"
  by (simp add: bind_def)

lemma for_each_all_ok:
  "(\<forall>x\<in>set xs. \<exists>y. f x = Inr y) \<Longrightarrow> \<exists>ys. for_each f xs = Inr ys"
  by (induction xs) auto

lemma for_each_member_fails:
  "x \<in> set xs \<Longrightarrow> f x = Inl e \<Longrightarrow> \<exists>e'. for_each f xs = Inl e'"
  by (induction xs) (auto split: sum.splits)

lemma for_each_first_failure:
  "(\<forall>c\<in>set pre. \<exists>v. f c = Inr v) \<Longrightarrow> f x = Inl e \<Longrightarrow> for_each f (pre @ x # post) = Inl e"
  by (induction pre) auto

lemma for_each_ids:
  "for_each f xs = Inr ys \<Longrightarrow> (\<And>x y. f x = Inr y \<Longrightarrow> g y = h x) \<Longrightarrow> map g ys = map h xs"
  by (induction xs arbitrary: ys) (auto split: sum.splits)

lemma for_each_length: "for_each f xs = Inr ys \<Longrightarrow> length ys = length xs"
  by (induction xs arbitrary: ys) (auto split: sum.splits)

section \<open>The news fetch: soft failure and missing fields\<close>

text \<open>
  C2. When the search request raises a transport error (a \<^verbatim>\<open>RequestException\<close>) or is answered
  with a status other than 200, \<open>get_news\<close> and \<open>get_news_for_sentiment\<close> return the empty
  list: no exception reaches the caller.
\<close>

theorem search_soft_failure:
  "(requests_get w (news_url w topic) = Inl RequestException
      \<or> (\<exists>resp. requests_get w (news_url w topic) = Inr resp \<and> status_code resp \<noteq> 200)
     \<longrightarrow> get_news w topic = Inr [])
   \<and> (requests_get w (sentiment_url w topic page_size) = Inl RequestException
      \<or> (\<exists>resp. requests_get w (sentiment_url w topic page_size) = Inr resp
            \<and> status_code resp \<noteq> 200)
     \<longrightarrow> get_news_for_sentiment w topic page_size = Inr [])"
  by (auto simp: get_news_def get_news_for_sentiment_def except_RequestException_def)

theorem search_soft_failure_witness:
  "status_code \<lparr> status_code = 500, json_body = Inl JSONDecodeError \<rparr> \<noteq> 200
   \<and> get_news (world net_500 always_failed) (JStr ''bitcoin'') = Inr []
   \<and> get_news_for_sentiment (world net_500 always_failed) (JStr ''bitcoin'') (JInt 10) = Inr []
   \<and> get_news (world net_down always_failed) (JStr ''bitcoin'') = Inr []
   \<and> get_news_for_sentiment (world net_down always_failed) (JStr ''bitcoin'') (JInt 10) = Inr []"
  using search_soft_failure [of "world net_500 always_failed" "JStr ''bitcoin''" "JInt 10"]
        search_soft_failure [of "world net_down always_failed" "JStr ''bitcoin''" "JInt 10"]
  by (simp add: world_def net_500_def net_down_def)

text \<open>
  The two loop bodies on an article that lacks a key. \<open>get_news\<close> subscripts the article,
  so the first missing key among \<^verbatim>\<open>source\<close>, \<^verbatim>\<open>author\<close>, \<^verbatim>\<open>title\<close>, \<^verbatim>\<open>description\<close>, \<^verbatim>\<open>url\<close>,
  \<^verbatim>\<open>content\<close> raises \<^verbatim>\<open>KeyError\<close>; \<open>get_news_for_sentiment\<close> reads every key with a default, and
  gives a block whenever \<^verbatim>\<open>source\<close>, if present, is a dict and \<^verbatim>\<open>content\<close>, if present, is a
  string.
\<close>

lemma title_description_missing_author:
  assumes "map_of kvs ''source'' = Some (JObj src)" and "map_of src ''name'' = Some n"
      and "map_of kvs ''author'' = None"
  shows "title_description w (JObj kvs) = Inl (KeyError ''author'')"
  using assms by (simp add: title_description_def)

lemma article_text_defaults:
  assumes "map_of kvs ''source'' = None \<or> (\<exists>src. map_of kvs ''source'' = Some (JObj src))"
      and "map_of kvs ''content'' = None \<or> (\<exists>c. map_of kvs ''content'' = Some (JStr c))"
  shows "\<exists>block. article_text w i (JObj kvs) = Inr block"
  using assms by (auto simp: article_text_def split: option.splits)

lemma for_each_enumerate_ok:
  "(\<forall>x\<in>set xs. \<forall>i. \<exists>y. f i x = Inr y) \<Longrightarrow>
     \<exists>ys. for_each (\<lambda>(i, x). f i x) (enumerate n xs) = Inr ys \<and> length ys = length xs"
proof (induction xs arbitrary: n)
  case Nil
  show ?case by simp
next
  case (Cons a xs)
  from Cons.prems have h: "\<forall>i. \<exists>y. f i a = Inr y" by simp
  from spec [OF h, of n] obtain y where y: "f n a = Inr y" ..
  from Cons.prems have "\<forall>x\<in>set xs. \<forall>i. \<exists>y. f i x = Inr y" by simp
  from Cons.IH [OF this, of "Suc n"]
  obtain ys where ys: "for_each (\<lambda>(i, x). f i x) (enumerate (Suc n) xs) = Inr ys"
      "length ys = length xs"
    by blast
  show ?case using y ys by simp
qed

lemma get_news_for_sentiment_keeps_batch:
  assumes "json_body resp = Inr (JObj body)" and "map_of body ''articles'' = Some (JArr articles)"
      and "\<forall>a\<in>set articles. \<exists>kvs. a = JObj kvs
             \<and> (map_of kvs ''source'' = None \<or> (\<exists>src. map_of kvs ''source'' = Some (JObj src)))
             \<and> (map_of kvs ''content'' = None \<or> (\<exists>c. map_of kvs ''content'' = Some (JStr c)))"
  shows "\<exists>blocks. get_news_for_sentiment_ok w resp = Inr blocks
           \<and> length blocks = length articles"
proof -
  have "\<forall>a\<in>set articles. \<forall>i. \<exists>block. article_text w i a = Inr block"
  proof (intro ballI allI)
    fix a i assume "a \<in> set articles"
    with assms(3) obtain kvs where "a = JObj kvs"
        "map_of kvs ''source'' = None \<or> (\<exists>src. map_of kvs ''source'' = Some (JObj src))"
        "map_of kvs ''content'' = None \<or> (\<exists>c. map_of kvs ''content'' = Some (JStr c))"
      by blast
    then show "\<exists>block. article_text w i a = Inr block"
      using article_text_defaults [of kvs w i] by simp
  qed
  from for_each_enumerate_ok [OF this, of 0] assms(1,2) show ?thesis
    by (simp add: get_news_for_sentiment_ok_def)
qed

text \<open>
  C1. The claim asks that an article without the \<^verbatim>\<open>author\<close> or \<^verbatim>\<open>description\<close> field still gives
  a block with a placeholder and that the batch keeps its length. On a 200 answer whose second
  article has neither key, \<open>get_news_for_sentiment\<close> does so (two blocks, \<^verbatim>\<open>No description\<close>
  in the second), while \<open>get_news\<close> reads \<^verbatim>\<open>article["author"]\<close> and raises \<^verbatim>\<open>KeyError\<close>: no
  list is returned. A field that is present and \<^verbatim>\<open>null\<close> is rendered \<^verbatim>\<open>None\<close> by both.
\<close>

theorem get_news_missing_author:
  "get_news (world (net_ok [article_complete, article_sparse]) always_failed) (JStr ''bitcoin'')
     = Inl (KeyError ''author'')
   \<and> get_news (world (net_ok [article_complete]) always_failed) (JStr ''bitcoin'')
     = Inr [''\<newline>                   Title: Bitcoin up, ''
          @ ''\<newline>                   Author: None,''
          @ ''\<newline>                   Source: Wired,''
          @ ''\<newline>                   Description: Prices rose,''
          @ ''\<newline>                   URL: https://a.example/1''
          @ ''\<newline>            \<newline>                '']
   \<and> get_news_for_sentiment (world (net_ok [article_complete, article_sparse]) always_failed)
         (JStr ''bitcoin'') (JInt 10)
     = Inr [''\<newline>                Article 1:''
          @ ''\<newline>                Title: Bitcoin up''
          @ ''\<newline>                Source: Wired''
          @ ''\<newline>                Published: 2025-01-01T00:00:00Z''
          @ ''\<newline>                Description: Prices rose''
          @ ''\<newline>                Content: Text one...''
          @ ''\<newline>                ---''
          @ ''\<newline>                '',
            ''\<newline>                Article 2:''
          @ ''\<newline>                Title: Bitcoin down''
          @ ''\<newline>                Source: BBC''
          @ ''\<newline>                Published: 2025-01-02T00:00:00Z''
          @ ''\<newline>                Description: No description''
          @ ''\<newline>                Content: Text two...''
          @ ''\<newline>                ---''
          @ ''\<newline>                '']"
  by code_simp

section \<open>Result extraction\<close>

text \<open>
  C9. With a thread present, \<open>process_message\<close> and \<open>process_sentiment_results\<close> index
  \<^verbatim>\<open>messages.data[0]\<close> and \<^verbatim>\<open>content[0]\<close> without a check: on an empty listing, and on a first
  message without content, they raise \<^verbatim>\<open>IndexError\<close>; they return exactly when the listing is
  non-empty and the first element of its first message is a text block.
\<close>

theorem extraction_needs_first_text:
  assumes "thread self = Some t" and "thread self' = Some t'"
  shows "(messages_list w (thread_ident t) = [] \<longrightarrow>
            process_message w self
              = Raised IndexError (self\<lparr> calls := calls self @ [MessagesList (thread_ident t)] \<rparr>))
       \<and> (messages_list w (thread_ident t') = [] \<longrightarrow>
            process_sentiment_results w self'
              = Raised IndexError (self'\<lparr> calls := calls self' @ [MessagesList (thread_ident t')] \<rparr>))
       \<and> ((\<exists>s. process_message w self = Returned s) \<longleftrightarrow>
            (\<exists>m ms v bs. messages_list w (thread_ident t) = m # ms \<and> content m = TextBlock v # bs))
       \<and> ((\<exists>s. process_sentiment_results w self' = Returned s) \<longleftrightarrow>
            (\<exists>m ms v bs. messages_list w (thread_ident t') = m # ms \<and> content m = TextBlock v # bs))
       \<and> (\<forall>m ms. messages_list w (thread_ident t) = m # ms \<and> content m = [] \<longrightarrow>
            (\<exists>s. process_message w self = Raised IndexError s))
       \<and> (\<forall>m ms. messages_list w (thread_ident t') = m # ms \<and> content m = [] \<longrightarrow>
            (\<exists>s. process_sentiment_results w self' = Raised IndexError s))"
  using assms
  by (auto simp: process_message_def process_sentiment_results_def Let_def
           split: list.splits content_block.splits)

theorem extraction_needs_first_text_witness:
  "thread manager1 = Some (Thread ''thread_0'')
   \<and> thread sentiment1 = Some (Thread ''thread_0'')
   \<and> messages_list world_empty_listing ''thread_0'' = []
   \<and> process_message world_empty_listing manager1
       = Raised IndexError (manager1\<lparr> calls := [ThreadsCreate, MessagesList ''thread_0''] \<rparr>)
   \<and> process_sentiment_results world_empty_listing sentiment1
       = Raised IndexError (sentiment1\<lparr> calls := [ThreadsCreate, MessagesList ''thread_0''] \<rparr>)
   \<and> (\<exists>s. process_message (world net_down always_failed) manager1 = Returned s)"
  using extraction_needs_first_text [of manager1 "Thread ''thread_0''" sentiment1
          "Thread ''thread_0''" world_empty_listing]
        extraction_needs_first_text [of manager1 "Thread ''thread_0''" sentiment1
          "Thread ''thread_0''" "world net_down always_failed"]
  by (simp add: manager1_def sentiment1_def world_empty_listing_def world_def)

text \<open>
  C5, as claimed: extraction on a job that is \<^verbatim>\<open>in_progress\<close> fails. It does not: with the run
  in progress and only the user's request in the thread, \<open>process_message\<close> returns and
  stores that request as the summary.
\<close>

theorem extraction_before_completion_counterexample:
  "map_option status (run manager1) = Some ''in_progress''
   \<and> process_message (world net_down (\<lambda>k. run_answer ''in_progress'')) manager1
       = Returned (manager1\<lparr> calls := [ThreadsCreate, MessagesList ''thread_0''],
                             summary := Some ''summarize the news on this topic bitcoin?'' \<rparr>)"
  by (simp add: process_message_def manager1_def world_def run_answer_def)

text \<open>
  C5, amended. Extraction never looks at the job: replacing \<^verbatim>\<open>self.run\<close> by any run, or by none,
  changes nothing but that field of the result. With a thread whose listing starts with a
  message whose first element is a text block, it returns and stores that text, which
  \<open>get_summary\<close> then gives back; without a thread it returns and stores nothing.
\<close>

theorem extraction_ignores_job_status:
  "process_message w (self\<lparr> run := r \<rparr>)
     = map_outcome (\<lambda>s. s\<lparr> run := r \<rparr>) (process_message w self)
   \<and> process_sentiment_results w (self'\<lparr> run := r \<rparr>)
     = map_outcome (\<lambda>s. s\<lparr> run := r \<rparr>) (process_sentiment_results w self')
   \<and> (\<forall>t m ms v bs. thread self = Some t \<and> messages_list w (thread_ident t) = m # ms
          \<and> content m = TextBlock v # bs \<longrightarrow>
        (\<exists>s. process_message w self = Returned s \<and> get_summary s = Some v))
   \<and> (\<forall>t m ms v bs. thread self' = Some t \<and> messages_list w (thread_ident t) = m # ms
          \<and> content m = TextBlock v # bs \<longrightarrow>
        (\<exists>s. process_sentiment_results w self' = Returned s \<and> sentiment_analysis s = Some v))
   \<and> (thread self = None \<longrightarrow> process_message w self = Returned self)
   \<and> (thread self' = None \<longrightarrow> process_sentiment_results w self' = Returned self')"
  by (auto simp: process_message_def process_sentiment_results_def Let_def get_summary_def
           split: list.splits content_block.splits option.splits)

theorem extraction_ignores_job_status_witness:
  "thread manager1 = Some (Thread ''thread_0'')
   \<and> thread manager0 = None
   \<and> process_message (world net_down always_failed) (manager1\<lparr> run := None \<rparr>)
       = map_outcome (\<lambda>s. s\<lparr> run := None \<rparr>) (process_message (world net_down always_failed) manager1)
   \<and> (\<exists>s. process_message (world net_down always_failed) manager1 = Returned s
          \<and> get_summary s = Some ''summarize the news on this topic bitcoin?'')
   \<and> (\<exists>s. process_sentiment_results (world net_down always_failed) sentiment1 = Returned s
          \<and> sentiment_analysis s = Some ''summarize the news on this topic bitcoin?'')
   \<and> process_message (world net_down always_failed) manager0 = Returned manager0"
  using extraction_ignores_job_status [where w = "world net_down always_failed"
          and self = manager1 and r = None and self' = sentiment1]
        extraction_ignores_job_status [where w = "world net_down always_failed"
          and self = manager0 and r = None and self' = sentiment1]
  by (simp add: manager1_def manager0_def sentiment1_def world_def)

section \<open>Opening the session\<close>

text \<open>
  C6, as claimed: two calls of \<open>create_thread\<close> within one process give the same thread, the
  second creating nothing. Two managers constructed before the first creation refute it:
  the guard reads \<^verbatim>\<open>self.thread\<close> only, so the second manager, which holds no thread, creates
  a second thread and overwrites the cached identifier.
\<close>

theorem two_managers_two_threads_counterexample:
  "thread (init manager0) = None
   \<and> thread (create_thread (world net_down always_failed) (init manager0))
       = Some (Thread ''thread_0'')
   \<and> thread_id (create_thread (world net_down always_failed) (init manager0))
       = Some ''thread_0''
   \<and> thread (create_thread (world net_down always_failed)
         (instance_in (create_thread (world net_down always_failed) (init manager0))
            (init manager0)))
       = Some (Thread ''thread_1'')
   \<and> thread_id (create_thread (world net_down always_failed)
         (instance_in (create_thread (world net_down always_failed) (init manager0))
            (init manager0)))
       = Some ''thread_1''
   \<and> threads_created (calls (create_thread (world net_down always_failed)
         (instance_in (create_thread (world net_down always_failed) (init manager0))
            (init manager0))))
       = 2"
  by code_simp

text \<open>
  C6, amended. On one manager \<open>create_thread\<close> is idempotent: the first call of a manager
  without a thread creates one and caches its identifier in the class attribute, a second
  call changes nothing and creates nothing. A manager constructed once the class attribute
  holds a non-empty identifier retrieves that thread in \<^verbatim>\<open>__init__\<close>, whatever the fields of
  other instances are, and its \<open>create_thread\<close> changes nothing; with no identifier cached
  the new manager has no thread. A manager that holds no thread creates a new one, also when
  another manager of the process has created one since it was constructed.
\<close>

theorem create_thread_reuse:
  "create_thread w (create_thread w self) = create_thread w self
   \<and> thread (create_thread w self) \<noteq> None
   \<and> (thread self = None \<longrightarrow>
        create_thread w self
          = self\<lparr> thread_id := Some (thread_ident (threads_create w (threads_created (calls self)))),
                   thread := Some (threads_create w (threads_created (calls self))),
                   calls := calls self @ [ThreadsCreate] \<rparr>)
   \<and> (thread_id p = Some i \<and> i \<noteq> [] \<longrightarrow>
        thread (init p) = Some (Thread i)
        \<and> thread_id (init p) = Some i
        \<and> create_thread w (init p) = init p
        \<and> threads_created (calls (init p)) = threads_created (calls p))
   \<and> (thread_id p = None \<or> thread_id p = Some [] \<longrightarrow> thread (init p) = None)
   \<and> (thread m = None \<longrightarrow>
        thread (create_thread w (instance_in p m))
          = Some (threads_create w (threads_created (calls p)))
        \<and> thread_id (create_thread w (instance_in p m))
          = Some (thread_ident (threads_create w (threads_created (calls p))))
        \<and> threads_created (calls (create_thread w (instance_in p m)))
          = Suc (threads_created (calls p)))"
proof (intro conjI impI)
  show "create_thread w (create_thread w self) = create_thread w self"
    by (simp add: create_thread_def Let_def split: option.splits)
  show "thread (create_thread w self) \<noteq> None"
    by (simp add: create_thread_def Let_def split: option.splits)
next
  assume "thread self = None"
  then show "create_thread w self
          = self\<lparr> thread_id := Some (thread_ident (threads_create w (threads_created (calls self)))),
                   thread := Some (threads_create w (threads_created (calls self))),
                   calls := calls self @ [ThreadsCreate] \<rparr>"
    by (simp add: create_thread_def Let_def)
next
  assume a: "thread_id p = Some i \<and> i \<noteq> []"
  then show t: "thread (init p) = Some (Thread i)"
    by (simp add: init_def Let_def)
  show "thread_id (init p) = Some i"
    using a by (simp add: init_def Let_def)
  show "create_thread w (init p) = init p"
    using t by (simp add: create_thread_def)
  show "threads_created (calls (init p)) = threads_created (calls p)"
    by (simp add: init_def Let_def threads_created_def split: option.splits)
next
  assume "thread_id p = None \<or> thread_id p = Some []"
  then show "thread (init p) = None"
    by (auto simp: init_def Let_def)
next
  assume m: "thread m = None"
  then have c: "create_thread w (instance_in p m)
      = (instance_in p m)\<lparr> thread_id := Some (thread_ident (threads_create w (threads_created (calls p)))),
                   thread := Some (threads_create w (threads_created (calls p))),
                   calls := calls p @ [ThreadsCreate] \<rparr>"
    by (simp add: create_thread_def instance_in_def Let_def)
  show "thread (create_thread w (instance_in p m))
          = Some (threads_create w (threads_created (calls p)))"
    by (simp add: c)
  show "thread_id (create_thread w (instance_in p m))
          = Some (thread_ident (threads_create w (threads_created (calls p))))"
    by (simp add: c)
  show "threads_created (calls (create_thread w (instance_in p m)))
          = Suc (threads_created (calls p))"
    by (simp add: c threads_created_def)
qed

theorem create_thread_reuse_witness:
  "thread manager0 = None
   \<and> thread_id manager0 = None
   \<and> thread (init manager0) = None
   \<and> create_thread (world net_down always_failed) manager0
       = manager0\<lparr> thread_id := Some ''thread_0'', thread := Some (Thread ''thread_0''),
                    calls := [ThreadsCreate] \<rparr>
   \<and> create_thread (world net_down always_failed)
         (create_thread (world net_down always_failed) manager0)
       = create_thread (world net_down always_failed) manager0
   \<and> thread_id (create_thread (world net_down always_failed) manager0) = Some ''thread_0''
   \<and> thread (init (create_thread (world net_down always_failed) manager0))
       = Some (Thread ''thread_0'')
   \<and> create_thread (world net_down always_failed)
         (init (create_thread (world net_down always_failed) manager0))
       = init (create_thread (world net_down always_failed) manager0)
   \<and> thread (create_thread (world net_down always_failed)
         (instance_in (create_thread (world net_down always_failed) manager0) manager0))
       = Some (Thread ''thread_1'')"
proof -
  have m: "thread manager0 = None" "thread_id manager0 = None" "calls manager0 = []"
    by (simp_all add: manager0_def)
  have n: "threads_create (world net_down always_failed) 0 = Thread ''thread_0''"
          "threads_create (world net_down always_failed) (Suc 0) = Thread ''thread_1''"
    by code_simp+
  note A = create_thread_reuse [where w = "world net_down always_failed" and self = manager0
             and p = manager0 and m = manager0]
  have c: "create_thread (world net_down always_failed) manager0
       = manager0\<lparr> thread_id := Some ''thread_0'', thread := Some (Thread ''thread_0''),
                    calls := [ThreadsCreate] \<rparr>"
    using A m by (simp add: threads_created_def n)
  have i: "thread_id (create_thread (world net_down always_failed) manager0) = Some ''thread_0''"
    by (simp add: c)
  note B = create_thread_reuse [where w = "world net_down always_failed" and self = manager0
             and p = "create_thread (world net_down always_failed) manager0"
             and i = "''thread_0''" and m = manager0]
  have k: "threads_created (calls (create_thread (world net_down always_failed) manager0)) = Suc 0"
    by (simp add: c threads_created_def)
  have e1: "create_thread (world net_down always_failed)
         (create_thread (world net_down always_failed) manager0)
       = create_thread (world net_down always_failed) manager0"
    using A by blast
  have e2: "thread (init manager0) = None"
    using A m by blast
  have e3: "thread (init (create_thread (world net_down always_failed) manager0))
       = Some (Thread ''thread_0'')"
    using B i by simp
  have e4: "create_thread (world net_down always_failed)
         (init (create_thread (world net_down always_failed) manager0))
       = init (create_thread (world net_down always_failed) manager0)"
    using B i by simp
  have e5: "thread (create_thread (world net_down always_failed)
         (instance_in (create_thread (world net_down always_failed) manager0) manager0))
       = Some (Thread ''thread_1'')"
  proof -
    have "thread (create_thread (world net_down always_failed)
           (instance_in (create_thread (world net_down always_failed) manager0) manager0))
         = Some (threads_create (world net_down always_failed)
             (threads_created (calls (create_thread (world net_down always_failed) manager0))))"
      using B m(1) by blast
    then show ?thesis by (simp only: k n)
  qed
  from m(1,2) e2 c e1 i e3 e4 e5 show ?thesis by (intro conjI)
qed

section \<open>Callback resolution\<close>

lemma resolve_call_unknown:
  "func_name action \<noteq> ''get_news'' \<Longrightarrow>
     \<exists>e. resolve_call w action = Inl e \<and> is_ValueError e
        \<and> (\<forall>args. json_loads w (arguments action) = Inr args \<longrightarrow>
              e = ValueError (''Unknown function: '' @ func_name action))"
  by (auto simp: resolve_call_def json_loads_def split: option.splits)

lemma resolve_call_Inr:
  "resolve_call w action = Inr v \<Longrightarrow>
     func_name action = ''get_news'' \<and> tool_call_id v = call_ident action"
  by (auto simp: resolve_call_def bind_def split: sum.splits if_splits)

lemma call_required_functions_raises:
  "run self = Some r \<Longrightarrow> for_each (resolve_call w) tool_calls = Inl e \<Longrightarrow>
     call_required_functions w self tool_calls = Raised e self"
  by (simp add: call_required_functions_def)

lemma call_required_functions_submits:
  "run self = Some r \<Longrightarrow> thread self = Some t \<Longrightarrow>
   for_each (resolve_call w) tool_calls = Inr outs \<Longrightarrow>
     call_required_functions w self tool_calls
       = Returned (self\<lparr> calls := calls self
           @ [SubmitToolOutputs (thread_ident t) (run_ident r) outs] \<rparr>)"
  by (simp add: call_required_functions_def)

lemma call_required_functions_unknown_in_batch:
  assumes "run self = Some r" and "action \<in> set tool_calls" and "func_name action \<noteq> ''get_news''"
  shows "\<exists>e. call_required_functions w self tool_calls = Raised e self"
proof -
  obtain e where "resolve_call w action = Inl e"
    using resolve_call_unknown [OF assms(3), of w] by auto
  then obtain e' where "for_each (resolve_call w) tool_calls = Inl e'"
    using for_each_member_fails [OF assms(2), of "resolve_call w" e] by auto
  then show ?thesis
    using call_required_functions_raises [OF assms(1)] by auto
qed

lemma call_required_functions_unknown_first_failure:
  assumes "run self = Some r" and "func_name action \<noteq> ''get_news''"
      and "\<forall>c\<in>set pre. \<exists>v. resolve_call w c = Inr v"
  shows "\<exists>e. call_required_functions w self (pre @ action # post) = Raised e self
            \<and> is_ValueError e
            \<and> (\<forall>args. json_loads w (arguments action) = Inr args \<longrightarrow>
                  e = ValueError (''Unknown function: '' @ func_name action))"
proof -
  obtain e where e: "resolve_call w action = Inl e" "is_ValueError e"
      "\<forall>args. json_loads w (arguments action) = Inr args \<longrightarrow>
              e = ValueError (''Unknown function: '' @ func_name action)"
    using resolve_call_unknown [OF assms(2), of w] by auto
  have "for_each (resolve_call w) (pre @ action # post) = Inl e"
    using for_each_first_failure [OF assms(3) e(1)] .
  then have "call_required_functions w self (pre @ action # post) = Raised e self"
    using call_required_functions_raises [OF assms(1)] by auto
  with e show ?thesis by auto
qed

lemma call_required_functions_all_resolved:
  assumes "run self = Some r" and "thread self = Some t"
      and "\<forall>c\<in>set tool_calls. \<exists>v. resolve_call w c = Inr v"
  shows "\<exists>outs. for_each (resolve_call w) tool_calls = Inr outs
           \<and> length outs = length tool_calls
           \<and> map tool_call_id outs = map call_ident tool_calls
           \<and> call_required_functions w self tool_calls
               = Returned (self\<lparr> calls := calls self
                   @ [SubmitToolOutputs (thread_ident t) (run_ident r) outs] \<rparr>)"
proof -
  obtain outs where o: "for_each (resolve_call w) tool_calls = Inr outs"
    using for_each_all_ok [OF assms(3)] by auto
  have ids: "map tool_call_id outs = map call_ident tool_calls"
  proof (rule for_each_ids [OF o])
    fix x y assume "resolve_call w x = Inr y"
    then show "tool_call_id y = call_ident x" by (simp add: resolve_call_Inr)
  qed
  have "length outs = length tool_calls"
    using for_each_length [OF o] .
  with o ids show ?thesis
    using call_required_functions_submits [OF assms(1,2) o] by auto
qed

lemma call_required_functions_some_fails:
  assumes "run self = Some r" and "c \<in> set tool_calls" and "resolve_call w c = Inl e"
  shows "\<exists>e'. call_required_functions w self tool_calls = Raised e' self"
proof -
  obtain e' where "for_each (resolve_call w) tool_calls = Inl e'"
    using for_each_member_fails [OF assms(2), of "resolve_call w" e] assms(3) by auto
  then show ?thesis
    using call_required_functions_raises [OF assms(1)] by auto
qed

lemma resolve_sentiment_call_unknown:
  "func_name action \<noteq> ''get_news_for_sentiment'' \<Longrightarrow>
     \<exists>e. resolve_sentiment_call w action = Inl e \<and> is_ValueError e
        \<and> (\<forall>args. json_loads w (arguments action) = Inr args \<longrightarrow>
              e = ValueError (''Unknown function: '' @ func_name action))"
  by (auto simp: resolve_sentiment_call_def json_loads_def split: option.splits)

lemma resolve_sentiment_call_Inr:
  "resolve_sentiment_call w action = Inr v \<Longrightarrow>
     func_name action = ''get_news_for_sentiment'' \<and> tool_call_id v = call_ident action"
  by (auto simp: resolve_sentiment_call_def bind_def split: sum.splits if_splits)

lemma call_sentiment_functions_raises:
  "run self = Some r \<Longrightarrow> for_each (resolve_sentiment_call w) tool_calls = Inl e \<Longrightarrow>
     call_sentiment_functions w self tool_calls = Raised e self"
  by (simp add: call_sentiment_functions_def)

lemma call_sentiment_functions_submits:
  "run self = Some r \<Longrightarrow> thread self = Some t \<Longrightarrow>
   for_each (resolve_sentiment_call w) tool_calls = Inr outs \<Longrightarrow>
     call_sentiment_functions w self tool_calls
       = Returned (self\<lparr> calls := calls self
           @ [SubmitToolOutputs (thread_ident t) (run_ident r) outs] \<rparr>)"
  by (simp add: call_sentiment_functions_def)

lemma call_sentiment_functions_unknown_in_batch:
  assumes "run self = Some r" and "action \<in> set tool_calls" and "func_name action \<noteq> ''get_news_for_sentiment''"
  shows "\<exists>e. call_sentiment_functions w self tool_calls = Raised e self"
proof -
  obtain e where "resolve_sentiment_call w action = Inl e"
    using resolve_sentiment_call_unknown [OF assms(3), of w] by auto
  then obtain e' where "for_each (resolve_sentiment_call w) tool_calls = Inl e'"
    using for_each_member_fails [OF assms(2), of "resolve_sentiment_call w" e] by auto
  then show ?thesis
    using call_sentiment_functions_raises [OF assms(1)] by auto
qed

lemma call_sentiment_functions_unknown_first_failure:
  assumes "run self = Some r" and "func_name action \<noteq> ''get_news_for_sentiment''"
      and "\<forall>c\<in>set pre. \<exists>v. resolve_sentiment_call w c = Inr v"
  shows "\<exists>e. call_sentiment_functions w self (pre @ action # post) = Raised e self
            \<and> is_ValueError e
            \<and> (\<forall>args. json_loads w (arguments action) = Inr args \<longrightarrow>
                  e = ValueError (''Unknown function: '' @ func_name action))"
proof -
  obtain e where e: "resolve_sentiment_call w action = Inl e" "is_ValueError e"
      "\<forall>args. json_loads w (arguments action) = Inr args \<longrightarrow>
              e = ValueError (''Unknown function: '' @ func_name action)"
    using resolve_sentiment_call_unknown [OF assms(2), of w] by auto
  have "for_each (resolve_sentiment_call w) (pre @ action # post) = Inl e"
    using for_each_first_failure [OF assms(3) e(1)] .
  then have "call_sentiment_functions w self (pre @ action # post) = Raised e self"
    using call_sentiment_functions_raises [OF assms(1)] by auto
  with e show ?thesis by auto
qed

lemma call_sentiment_functions_all_resolved:
  assumes "run self = Some r" and "thread self = Some t"
      and "\<forall>c\<in>set tool_calls. \<exists>v. resolve_sentiment_call w c = Inr v"
  shows "\<exists>outs. for_each (resolve_sentiment_call w) tool_calls = Inr outs
           \<and> length outs = length tool_calls
           \<and> map tool_call_id outs = map call_ident tool_calls
           \<and> call_sentiment_functions w self tool_calls
               = Returned (self\<lparr> calls := calls self
                   @ [SubmitToolOutputs (thread_ident t) (run_ident r) outs] \<rparr>)"
proof -
  obtain outs where o: "for_each (resolve_sentiment_call w) tool_calls = Inr outs"
    using for_each_all_ok [OF assms(3)] by auto
  have ids: "map tool_call_id outs = map call_ident tool_calls"
  proof (rule for_each_ids [OF o])
    fix x y assume "resolve_sentiment_call w x = Inr y"
    then show "tool_call_id y = call_ident x" by (simp add: resolve_sentiment_call_Inr)
  qed
  have "length outs = length tool_calls"
    using for_each_length [OF o] .
  with o ids show ?thesis
    using call_sentiment_functions_submits [OF assms(1,2) o] by auto
qed

lemma call_sentiment_functions_some_fails:
  assumes "run self = Some r" and "c \<in> set tool_calls" and "resolve_sentiment_call w c = Inl e"
  shows "\<exists>e'. call_sentiment_functions w self tool_calls = Raised e' self"
proof -
  obtain e' where "for_each (resolve_sentiment_call w) tool_calls = Inl e'"
    using for_each_member_fails [OF assms(2), of "resolve_sentiment_call w" e] assms(3) by auto
  then show ?thesis
    using call_sentiment_functions_raises [OF assms(1)] by auto
qed

lemma resolve_call_unknown_exact:
  "func_name action \<noteq> ''get_news'' \<Longrightarrow>
     resolve_call w action
       = Inl (case json_decode w (arguments action) of
                None \<Rightarrow> JSONDecodeError
              | Some args \<Rightarrow> ValueError (''Unknown function: '' @ func_name action))"
  by (simp add: resolve_call_def json_loads_def split: option.splits)

lemma call_required_functions_no_run: "run self = None \<Longrightarrow> call_required_functions w self tool_calls = Returned self"
  by (simp add: call_required_functions_def)

lemma call_required_functions_first_failure:
  assumes "run self \<noteq> None" and "\<forall>c\<in>set pre. \<exists>v. resolve_call w c = Inr v"
      and "resolve_call w x = Inl e"
  shows "call_required_functions w self (pre @ x # post) = Raised e self"
proof -
  obtain r where r: "run self = Some r" using assms(1) by auto
  have "for_each (resolve_call w) (pre @ x # post) = Inl e"
    using for_each_first_failure [OF assms(2,3)] .
  then show ?thesis using call_required_functions_raises [OF r] by auto
qed

lemma call_required_functions_unknown_never_returns:
  assumes "run self \<noteq> None" and "action \<in> set tool_calls" and "func_name action \<noteq> ''get_news''"
  shows "\<exists>e. call_required_functions w self tool_calls = Raised e self"
proof -
  obtain r where r: "run self = Some r" using assms(1) by auto
  show ?thesis using call_required_functions_unknown_in_batch [OF r assms(2,3)] .
qed

lemma resolve_sentiment_call_unknown_exact:
  "func_name action \<noteq> ''get_news_for_sentiment'' \<Longrightarrow>
     resolve_sentiment_call w action
       = Inl (case json_decode w (arguments action) of
                None \<Rightarrow> JSONDecodeError
              | Some args \<Rightarrow> ValueError (''Unknown function: '' @ func_name action))"
  by (simp add: resolve_sentiment_call_def json_loads_def split: option.splits)

lemma call_sentiment_functions_no_run: "run self = None \<Longrightarrow> call_sentiment_functions w self tool_calls = Returned self"
  by (simp add: call_sentiment_functions_def)

lemma call_sentiment_functions_first_failure:
  assumes "run self \<noteq> None" and "\<forall>c\<in>set pre. \<exists>v. resolve_sentiment_call w c = Inr v"
      and "resolve_sentiment_call w x = Inl e"
  shows "call_sentiment_functions w self (pre @ x # post) = Raised e self"
proof -
  obtain r where r: "run self = Some r" using assms(1) by auto
  have "for_each (resolve_sentiment_call w) (pre @ x # post) = Inl e"
    using for_each_first_failure [OF assms(2,3)] .
  then show ?thesis using call_sentiment_functions_raises [OF r] by auto
qed

lemma call_sentiment_functions_unknown_never_returns:
  assumes "run self \<noteq> None" and "action \<in> set tool_calls" and "func_name action \<noteq> ''get_news_for_sentiment''"
  shows "\<exists>e. call_sentiment_functions w self tool_calls = Raised e self"
proof -
  obtain r where r: "run self = Some r" using assms(1) by auto
  show ?thesis using call_sentiment_functions_unknown_in_batch [OF r assms(2,3)] .
qed

text \<open>
  C4, as claimed: for every request with an unknown function name, callback resolution
  raises the explicit \<^verbatim>\<open>ValueError\<close>, never skipping the call silently. Three inputs refute it.
  When an earlier request of the batch fails, its exception is the one raised (here
  \<^verbatim>\<open>KeyError\<close> for a missing topic); when the arguments of the unknown request do not decode,
  \<^verbatim>\<open>json.loads\<close>, which runs before the name is compared, raises \<^verbatim>\<open>JSONDecodeError\<close>; and a manager
  without a run returns at once, raising nothing.
\<close>

theorem unknown_function_other_outcomes_counterexample:
  "func_name call_unknown \<noteq> ''get_news''
   \<and> call_required_functions news_world manager1 [call_no_topic, call_unknown]
       = Raised (KeyError ''topic'') manager1
   \<and> \<not> is_ValueError (KeyError ''topic'')
   \<and> func_name call_unknown_undecodable \<noteq> ''get_news''
   \<and> call_required_functions news_world manager1 [call_unknown_undecodable]
       = Raised JSONDecodeError manager1
   \<and> run manager0 = None
   \<and> call_required_functions news_world manager0 [call_unknown] = Returned manager0"
  by (simp add: call_required_functions_def resolve_call_def json_loads_def news_world_def
      world_def call_no_topic_def call_unknown_def call_unknown_undecodable_def manager0_def
      manager1_def decode_sample_def)

text \<open>
  C4, amended. With a run present, a batch that contains a request with an unknown function
  name never returns: an exception leaves \<open>call_required_functions\<close>
  (\<open>call_sentiment_functions\<close>) with the state unchanged, so nothing is submitted and the
  call is not skipped. The exception is that of the first request of the batch that fails.
  The unknown request itself fails with the explicit \<^verbatim>\<open>ValueError\<close>
  (\<^verbatim>\<open>Unknown function: <name>\<close>) when its arguments decode and with \<^verbatim>\<open>JSONDecodeError\<close> when they
  do not. Without a run the method returns at once, with the state unchanged.
\<close>

theorem unknown_function_fatal:
  "(run self = None \<longrightarrow> call_required_functions w self tool_calls = Returned self)
   \<and> (run self \<noteq> None \<and> action \<in> set tool_calls \<and> func_name action \<noteq> ''get_news'' \<longrightarrow>
        (\<exists>e. call_required_functions w self tool_calls = Raised e self))
   \<and> (func_name action \<noteq> ''get_news'' \<longrightarrow>
        resolve_call w action
          = Inl (case json_decode w (arguments action) of
                   None \<Rightarrow> JSONDecodeError
                 | Some args \<Rightarrow> ValueError (''Unknown function: '' @ func_name action)))
   \<and> (run self \<noteq> None \<and> (\<forall>c\<in>set pre. \<exists>v. resolve_call w c = Inr v)
          \<and> resolve_call w x = Inl e \<longrightarrow>
        call_required_functions w self (pre @ x # post) = Raised e self)
   \<and> (run self' = None \<longrightarrow> call_sentiment_functions w self' tool_calls = Returned self')
   \<and> (run self' \<noteq> None \<and> action \<in> set tool_calls
          \<and> func_name action \<noteq> ''get_news_for_sentiment'' \<longrightarrow>
        (\<exists>e. call_sentiment_functions w self' tool_calls = Raised e self'))
   \<and> (func_name action \<noteq> ''get_news_for_sentiment'' \<longrightarrow>
        resolve_sentiment_call w action
          = Inl (case json_decode w (arguments action) of
                   None \<Rightarrow> JSONDecodeError
                 | Some args \<Rightarrow> ValueError (''Unknown function: '' @ func_name action)))
   \<and> (run self' \<noteq> None \<and> (\<forall>c\<in>set pre'. \<exists>v. resolve_sentiment_call w c = Inr v)
          \<and> resolve_sentiment_call w x' = Inl e' \<longrightarrow>
        call_sentiment_functions w self' (pre' @ x' # post') = Raised e' self')"
proof (intro conjI impI)
  assume "run self = None"
  then show "call_required_functions w self tool_calls = Returned self"
    by (rule call_required_functions_no_run)
next
  assume "run self \<noteq> None \<and> action \<in> set tool_calls \<and> func_name action \<noteq> ''get_news''"
  then show "\<exists>e. call_required_functions w self tool_calls = Raised e self"
    using call_required_functions_unknown_never_returns [of self action tool_calls w] by simp
next
  assume "func_name action \<noteq> ''get_news''"
  then show "resolve_call w action
          = Inl (case json_decode w (arguments action) of
                   None \<Rightarrow> JSONDecodeError
                 | Some args \<Rightarrow> ValueError (''Unknown function: '' @ func_name action))"
    by (rule resolve_call_unknown_exact)
next
  assume "run self \<noteq> None \<and> (\<forall>c\<in>set pre. \<exists>v. resolve_call w c = Inr v)
          \<and> resolve_call w x = Inl e"
  then show "call_required_functions w self (pre @ x # post) = Raised e self"
    using call_required_functions_first_failure [of self pre w x e post] by simp
next
  assume "run self' = None"
  then show "call_sentiment_functions w self' tool_calls = Returned self'"
    by (rule call_sentiment_functions_no_run)
next
  assume "run self' \<noteq> None \<and> action \<in> set tool_calls
          \<and> func_name action \<noteq> ''get_news_for_sentiment''"
  then show "\<exists>e. call_sentiment_functions w self' tool_calls = Raised e self'"
    using call_sentiment_functions_unknown_never_returns [of self' action tool_calls w] by simp
next
  assume "func_name action \<noteq> ''get_news_for_sentiment''"
  then show "resolve_sentiment_call w action
          = Inl (case json_decode w (arguments action) of
                   None \<Rightarrow> JSONDecodeError
                 | Some args \<Rightarrow> ValueError (''Unknown function: '' @ func_name action))"
    by (rule resolve_sentiment_call_unknown_exact)
next
  assume "run self' \<noteq> None \<and> (\<forall>c\<in>set pre'. \<exists>v. resolve_sentiment_call w c = Inr v)
          \<and> resolve_sentiment_call w x' = Inl e'"
  then show "call_sentiment_functions w self' (pre' @ x' # post') = Raised e' self'"
    using call_sentiment_functions_first_failure [of self' pre' w x' e' post'] by simp
qed

theorem unknown_function_fatal_witness:
  "run manager1 \<noteq> None
   \<and> run sentiment1 \<noteq> None
   \<and> run manager0 = None
   \<and> func_name call_unknown \<noteq> ''get_news''
   \<and> func_name call_unknown \<noteq> ''get_news_for_sentiment''
   \<and> (\<exists>v. resolve_call news_world call_news = Inr v)
   \<and> (\<exists>v. resolve_sentiment_call news_world call_sentiment = Inr v)
   \<and> resolve_call news_world call_unknown = Inl (ValueError ''Unknown function: get_weather'')
   \<and> resolve_call news_world call_unknown_undecodable = Inl JSONDecodeError
   \<and> call_required_functions news_world manager1 [call_news, call_unknown]
       = Raised (ValueError ''Unknown function: get_weather'') manager1
   \<and> call_sentiment_functions news_world sentiment1 [call_sentiment, call_unknown]
       = Raised (ValueError ''Unknown function: get_weather'') sentiment1
   \<and> (\<exists>e. call_required_functions news_world manager1 [call_unknown, call_news]
          = Raised e manager1)
   \<and> call_required_functions news_world manager0 [call_unknown] = Returned manager0"
proof -
  have a: "\<forall>c\<in>set [call_news]. \<exists>v. resolve_call news_world c = Inr v"
    by (simp add: resolve_call_def json_loads_def get_news_def get_news_ok_def
        title_description_def except_RequestException_def news_world_def world_def net_ok_def
        search_body_def article_complete_def call_news_def decode_sample_def)
  have b: "\<forall>c\<in>set [call_sentiment]. \<exists>v. resolve_sentiment_call news_world c = Inr v"
    by (simp add: resolve_sentiment_call_def json_loads_def get_news_for_sentiment_def
        get_news_for_sentiment_ok_def article_text_def except_RequestException_def
        news_world_def world_def net_ok_def search_body_def article_complete_def
        call_sentiment_def decode_sample_def)
  have d: "func_name call_unknown \<noteq> ''get_news''"
          "func_name call_unknown \<noteq> ''get_news_for_sentiment''"
          "func_name call_unknown_undecodable \<noteq> ''get_news''"
    by (simp_all add: call_unknown_def call_unknown_undecodable_def)
  have j: "json_decode news_world (arguments call_unknown) = Some (JObj [])"
          "json_decode news_world (arguments call_unknown_undecodable) = None"
          "func_name call_unknown = ''get_weather''"
    by (simp_all add: news_world_def world_def call_unknown_def call_unknown_undecodable_def
        decode_sample_def)
  have r: "run manager1 \<noteq> None" "run sentiment1 \<noteq> None" "run manager0 = None"
    by (simp_all add: manager1_def sentiment1_def manager0_def)
  note T = unknown_function_fatal [where w = news_world and action = call_unknown
             and self = manager1 and self' = sentiment1
             and tool_calls = "[call_unknown, call_news]"
             and pre = "[call_news]" and x = call_unknown and post = "[]"
             and e = "ValueError ''Unknown function: get_weather''"
             and pre' = "[call_sentiment]" and x' = call_unknown and post' = "[]"
             and e' = "ValueError ''Unknown function: get_weather''"]
  note U = unknown_function_fatal [where w = news_world and action = call_unknown_undecodable
             and self = manager0 and self' = sentiment1 and tool_calls = "[call_unknown]"]
  have u1: "resolve_call news_world call_unknown
              = Inl (ValueError ''Unknown function: get_weather'')"
  proof -
    have "resolve_call news_world call_unknown
          = Inl (case json_decode news_world (arguments call_unknown) of
                   None \<Rightarrow> JSONDecodeError
                 | Some args \<Rightarrow> ValueError (''Unknown function: '' @ func_name call_unknown))"
      using T d(1) by blast
    then show ?thesis by (simp add: j)
  qed
  have u2: "resolve_sentiment_call news_world call_unknown
              = Inl (ValueError ''Unknown function: get_weather'')"
  proof -
    have "resolve_sentiment_call news_world call_unknown
          = Inl (case json_decode news_world (arguments call_unknown) of
                   None \<Rightarrow> JSONDecodeError
                 | Some args \<Rightarrow> ValueError (''Unknown function: '' @ func_name call_unknown))"
      using T d(2) by blast
    then show ?thesis by (simp add: j)
  qed
  have u3: "resolve_call news_world call_unknown_undecodable = Inl JSONDecodeError"
  proof -
    have "resolve_call news_world call_unknown_undecodable
          = Inl (case json_decode news_world (arguments call_unknown_undecodable) of
                   None \<Rightarrow> JSONDecodeError
                 | Some args \<Rightarrow>
                     ValueError (''Unknown function: '' @ func_name call_unknown_undecodable))"
      using U d(3) by blast
    then show ?thesis by (simp add: j)
  qed
  have v1: "call_required_functions news_world manager1 ([call_news] @ call_unknown # [])
       = Raised (ValueError ''Unknown function: get_weather'') manager1"
    using T r(1) a u1 by blast
  have v2: "call_sentiment_functions news_world sentiment1 ([call_sentiment] @ call_unknown # [])
       = Raised (ValueError ''Unknown function: get_weather'') sentiment1"
    using T r(2) b u2 by blast
  have v3: "\<exists>e. call_required_functions news_world manager1 [call_unknown, call_news]
          = Raised e manager1"
  proof -
    have "call_unknown \<in> set [call_unknown, call_news]" by simp
    with T r(1) d(1) show ?thesis by blast
  qed
  have v4: "call_required_functions news_world manager0 [call_unknown] = Returned manager0"
    using U r(3) by blast
  have a': "\<exists>v. resolve_call news_world call_news = Inr v" using a by simp
  have b': "\<exists>v. resolve_sentiment_call news_world call_sentiment = Inr v" using b by simp
  have v1': "call_required_functions news_world manager1 [call_news, call_unknown]
       = Raised (ValueError ''Unknown function: get_weather'') manager1"
    using v1 by simp
  have v2': "call_sentiment_functions news_world sentiment1 [call_sentiment, call_unknown]
       = Raised (ValueError ''Unknown function: get_weather'') sentiment1"
    using v2 by simp
  from r d(1,2) a' b' u1 u3 v1' v2' v3 v4 show ?thesis by (intro conjI)
qed

text \<open>
  C7, as claimed: in a cycle whose function names are all known, one output per request is
  produced and submitted. A request naming \<^verbatim>\<open>get_news\<close> whose arguments hold no \<^verbatim>\<open>topic\<close> refutes
  it: \<^verbatim>\<open>arguments["topic"]\<close> raises \<^verbatim>\<open>KeyError\<close> and nothing is submitted.
\<close>

theorem known_names_no_submission_counterexample:
  "func_name call_no_topic = ''get_news''
   \<and> thread manager1 = Some (Thread ''thread_0'')
   \<and> run manager1 = Some (run_answer ''in_progress'')
   \<and> call_required_functions news_world manager1 [call_no_topic]
       = Raised (KeyError ''topic'') manager1"
  by (simp add: call_required_functions_def resolve_call_def json_loads_def news_world_def
      world_def call_no_topic_def manager1_def decode_sample_def)

text \<open>
  C7, amended. In a cycle with a run and a thread in which every request resolves without
  raising (which needs a known name, arguments that decode and hold a topic, and a fetch
  that returns), one output is produced per request, keyed by its call identifier and in
  request order, and all are submitted in one call, the only call made. When some request
  raises, the exception leaves the method with the state unchanged: nothing is submitted.
  So a submission is never partial.
\<close>

theorem callback_batch_all_or_nothing:
  assumes "run self = Some r" and "thread self = Some t"
      and "run self' = Some r'" and "thread self' = Some t'"
  shows "((\<forall>c\<in>set tool_calls. \<exists>v. resolve_call w c = Inr v) \<longrightarrow>
            (\<exists>outs. for_each (resolve_call w) tool_calls = Inr outs
               \<and> length outs = length tool_calls
               \<and> map tool_call_id outs = map call_ident tool_calls
               \<and> call_required_functions w self tool_calls
                   = Returned (self\<lparr> calls := calls self
                       @ [SubmitToolOutputs (thread_ident t) (run_ident r) outs] \<rparr>)))
       \<and> ((\<exists>c\<in>set tool_calls. \<exists>e. resolve_call w c = Inl e) \<longrightarrow>
            (\<exists>e. call_required_functions w self tool_calls = Raised e self))
       \<and> ((\<forall>c\<in>set tool_calls'. \<exists>v. resolve_sentiment_call w c = Inr v) \<longrightarrow>
            (\<exists>outs. for_each (resolve_sentiment_call w) tool_calls' = Inr outs
               \<and> length outs = length tool_calls'
               \<and> map tool_call_id outs = map call_ident tool_calls'
               \<and> call_sentiment_functions w self' tool_calls'
                   = Returned (self'\<lparr> calls := calls self'
                       @ [SubmitToolOutputs (thread_ident t') (run_ident r') outs] \<rparr>)))
       \<and> ((\<exists>c\<in>set tool_calls'. \<exists>e. resolve_sentiment_call w c = Inl e) \<longrightarrow>
            (\<exists>e. call_sentiment_functions w self' tool_calls' = Raised e self'))"
proof (intro conjI impI)
  assume "\<forall>c\<in>set tool_calls. \<exists>v. resolve_call w c = Inr v"
  then show "\<exists>outs. for_each (resolve_call w) tool_calls = Inr outs
               \<and> length outs = length tool_calls
               \<and> map tool_call_id outs = map call_ident tool_calls
               \<and> call_required_functions w self tool_calls
                   = Returned (self\<lparr> calls := calls self
                       @ [SubmitToolOutputs (thread_ident t) (run_ident r) outs] \<rparr>)"
    by (rule call_required_functions_all_resolved [OF assms(1,2)])
next
  assume "\<exists>c\<in>set tool_calls. \<exists>e. resolve_call w c = Inl e"
  then obtain c e where "c \<in> set tool_calls" "resolve_call w c = Inl e" by auto
  then show "\<exists>e. call_required_functions w self tool_calls = Raised e self"
    by (rule call_required_functions_some_fails [OF assms(1)])
next
  assume "\<forall>c\<in>set tool_calls'. \<exists>v. resolve_sentiment_call w c = Inr v"
  then show "\<exists>outs. for_each (resolve_sentiment_call w) tool_calls' = Inr outs
               \<and> length outs = length tool_calls'
               \<and> map tool_call_id outs = map call_ident tool_calls'
               \<and> call_sentiment_functions w self' tool_calls'
                   = Returned (self'\<lparr> calls := calls self'
                       @ [SubmitToolOutputs (thread_ident t') (run_ident r') outs] \<rparr>)"
    by (rule call_sentiment_functions_all_resolved [OF assms(3,4)])
next
  assume "\<exists>c\<in>set tool_calls'. \<exists>e. resolve_sentiment_call w c = Inl e"
  then obtain c e where "c \<in> set tool_calls'" "resolve_sentiment_call w c = Inl e" by auto
  then show "\<exists>e. call_sentiment_functions w self' tool_calls' = Raised e self'"
    by (rule call_sentiment_functions_some_fails [OF assms(3)])
qed

theorem callback_batch_all_or_nothing_witness:
  "run manager1 = Some (run_answer ''in_progress'')
   \<and> thread manager1 = Some (Thread ''thread_0'')
   \<and> (\<exists>v. resolve_call news_world call_news = Inr v)
   \<and> (\<exists>v. resolve_call news_world call_news_again = Inr v)
   \<and> (\<exists>outs. call_required_functions news_world manager1 [call_news, call_news_again]
          = Returned (manager1\<lparr> calls :=
              [ThreadsCreate, SubmitToolOutputs ''thread_0'' ''run_1'' outs] \<rparr>)
        \<and> map tool_call_id outs = [''call_1'', ''call_2''])
   \<and> (\<exists>e. resolve_call news_world call_no_topic = Inl e)
   \<and> (\<exists>e. call_required_functions news_world manager1 [call_news, call_no_topic]
          = Raised e manager1)
   \<and> (\<exists>v. resolve_sentiment_call news_world call_sentiment = Inr v)
   \<and> (\<exists>v. resolve_sentiment_call news_world call_sentiment_again = Inr v)
   \<and> (\<exists>outs. call_sentiment_functions news_world sentiment1 [call_sentiment, call_sentiment_again]
          = Returned (sentiment1\<lparr> calls :=
              [ThreadsCreate, SubmitToolOutputs ''thread_0'' ''run_1'' outs] \<rparr>)
        \<and> map tool_call_id outs = [''call_1'', ''call_2''])
   \<and> (\<exists>e. call_sentiment_functions news_world sentiment1 [call_sentiment, call_sentiment_no_topic]
          = Raised e sentiment1)"
proof -
  have a: "\<forall>c\<in>set [call_news, call_news_again]. \<exists>v. resolve_call news_world c = Inr v"
    by (simp add: resolve_call_def json_loads_def get_news_def get_news_ok_def
        title_description_def except_RequestException_def news_world_def world_def net_ok_def
        search_body_def article_complete_def call_news_def call_news_again_def
        decode_sample_def)
  have b: "\<forall>c\<in>set [call_sentiment, call_sentiment_again].
             \<exists>v. resolve_sentiment_call news_world c = Inr v"
    by (simp add: resolve_sentiment_call_def json_loads_def get_news_for_sentiment_def
        get_news_for_sentiment_ok_def article_text_def except_RequestException_def
        news_world_def world_def net_ok_def search_body_def article_complete_def
        call_sentiment_def call_sentiment_again_def decode_sample_def)
  have c: "\<exists>c\<in>set [call_news, call_no_topic]. \<exists>e. resolve_call news_world c = Inl e"
    by (simp add: resolve_call_def json_loads_def news_world_def world_def
        call_no_topic_def decode_sample_def)
  have d: "\<exists>c\<in>set [call_sentiment, call_sentiment_no_topic].
             \<exists>e. resolve_sentiment_call news_world c = Inl e"
    by (simp add: resolve_sentiment_call_def json_loads_def news_world_def world_def
        call_sentiment_no_topic_def decode_sample_def)
  have r: "run manager1 = Some (run_answer ''in_progress'')"
          "thread manager1 = Some (Thread ''thread_0'')"
          "run sentiment1 = Some (run_answer ''in_progress'')"
          "thread sentiment1 = Some (Thread ''thread_0'')"
    by (simp_all add: manager1_def sentiment1_def)
  have i: "call_ident call_news = ''call_1''" "call_ident call_news_again = ''call_2''"
          "call_ident call_sentiment = ''call_1''" "call_ident call_sentiment_again = ''call_2''"
    by (simp_all add: call_news_def call_news_again_def call_sentiment_def
        call_sentiment_again_def)
  have k: "calls manager1 = [ThreadsCreate]" "calls sentiment1 = [ThreadsCreate]"
          "run_ident (run_answer ''in_progress'') = ''run_1''"
    by (simp_all add: manager1_def sentiment1_def run_answer_def)
  note T1 = callback_batch_all_or_nothing [OF r, where w = news_world
            and tool_calls = "[call_news, call_news_again]"
            and tool_calls' = "[call_sentiment, call_sentiment_again]"]
  note T2 = callback_batch_all_or_nothing [OF r, where w = news_world
            and tool_calls = "[call_news, call_no_topic]"
            and tool_calls' = "[call_sentiment, call_sentiment_no_topic]"]
  have ok: "\<exists>outs. call_required_functions news_world manager1 [call_news, call_news_again]
          = Returned (manager1\<lparr> calls :=
              [ThreadsCreate, SubmitToolOutputs ''thread_0'' ''run_1'' outs] \<rparr>)
        \<and> map tool_call_id outs = [''call_1'', ''call_2'']"
  proof -
    from T1 a obtain outs where
        "map tool_call_id outs = map call_ident [call_news, call_news_again]"
        "call_required_functions news_world manager1 [call_news, call_news_again]
           = Returned (manager1\<lparr> calls := calls manager1
               @ [SubmitToolOutputs (thread_ident (Thread ''thread_0''))
                    (run_ident (run_answer ''in_progress'')) outs] \<rparr>)"
      by blast
    then show ?thesis by (intro exI [of _ outs]) (simp add: i k)
  qed
  have ok': "\<exists>outs. call_sentiment_functions news_world sentiment1
            [call_sentiment, call_sentiment_again]
          = Returned (sentiment1\<lparr> calls :=
              [ThreadsCreate, SubmitToolOutputs ''thread_0'' ''run_1'' outs] \<rparr>)
        \<and> map tool_call_id outs = [''call_1'', ''call_2'']"
  proof -
    from T1 b obtain outs where
        "map tool_call_id outs = map call_ident [call_sentiment, call_sentiment_again]"
        "call_sentiment_functions news_world sentiment1 [call_sentiment, call_sentiment_again]
           = Returned (sentiment1\<lparr> calls := calls sentiment1
               @ [SubmitToolOutputs (thread_ident (Thread ''thread_0''))
                    (run_ident (run_answer ''in_progress'')) outs] \<rparr>)"
      by blast
    then show ?thesis by (intro exI [of _ outs]) (simp add: i k)
  qed
  have bad: "\<exists>e. call_required_functions news_world manager1 [call_news, call_no_topic]
          = Raised e manager1"
    using T2 c by blast
  have bad': "\<exists>e. call_sentiment_functions news_world sentiment1
            [call_sentiment, call_sentiment_no_topic] = Raised e sentiment1"
    using T2 d by blast
  have a': "\<exists>v. resolve_call news_world call_news = Inr v"
           "\<exists>v. resolve_call news_world call_news_again = Inr v"
    using a by simp_all
  have b': "\<exists>v. resolve_sentiment_call news_world call_sentiment = Inr v"
           "\<exists>v. resolve_sentiment_call news_world call_sentiment_again = Inr v"
    using b by simp_all
  have c': "\<exists>e. resolve_call news_world call_no_topic = Inl e"
    by (simp add: resolve_call_def json_loads_def news_world_def world_def
        call_no_topic_def decode_sample_def)
  from r(1,2) a' ok c' bad b' ok' bad' show ?thesis by (intro conjI)
qed

section \<open>The poll loop\<close>

lemma paced_append: "paced xs \<Longrightarrow> paced ys \<Longrightarrow> paced (xs @ ys)"
  by (induction xs rule: paced.induct) auto

lemma paced_from_refl: "paced_from cs cs"
  by (simp add: paced_from_def)

lemma paced_from_append: "paced new \<Longrightarrow> paced_from cs (cs @ new)"
  by (simp add: paced_from_def)

lemma paced_from_trans:
  assumes "paced_from a b" and "paced_from b c"
  shows "paced_from a c"
proof -
  obtain x where x: "b = a @ x" "paced x"
    using assms(1) by (metis append_take_drop_id paced_from_def)
  obtain y where y: "c = b @ y" "paced y"
    using assms(2) by (metis append_take_drop_id paced_from_def)
  have "c = a @ (x @ y)" using x y by simp
  moreover have "paced (x @ y)" using x y by (simp add: paced_append)
  ultimately show ?thesis by (simp add: paced_from_def)
qed

lemma polls_Suc: "polls (Suc n) t r = [Sleep 5, RunsRetrieve (thread_ident t) (run_ident r)] @ polls n t r"
  by (simp add: polls_def)

lemma paced_polls: "paced (polls n t r)"
  by (induction n) (simp_all add: polls_def)

lemma process_message_paced: "paced_from (calls self) (calls (state_of (process_message w self)))"
  by (auto simp: process_message_def Let_def paced_from_def
           split: option.splits list.splits content_block.splits)

lemma call_required_functions_paced: "paced_from (calls self) (calls (state_of (call_required_functions w self tool_calls)))"
  by (auto simp: call_required_functions_def paced_from_def split: option.splits sum.splits)

lemma call_required_functions_not_Running: "call_required_functions w self tool_calls \<noteq> Running s"
  by (auto simp: call_required_functions_def split: option.splits sum.splits)

lemma poll_loop_step:
  assumes "thread self = Some t" and "run self = Some r"
      and "status (runs_retrieve w k) \<noteq> ''completed''"
      and "status (runs_retrieve w k) \<noteq> ''requires_action''"
  shows "poll_loop (Suc fuel) w k self
           = poll_loop fuel w (Suc k)
               (self\<lparr> calls := calls self
                  @ [Sleep 5, RunsRetrieve (thread_ident t) (run_ident r)] \<rparr>)"
  using assms by (simp add: Let_def)

lemma call_required_functions_keeps:
  "call_required_functions w self tool_calls = Returned s \<Longrightarrow> thread s = thread self \<and> run s = run self"
  by (auto simp: call_required_functions_def split: option.splits sum.splits)

lemma poll_loop_paced:
  assumes "thread self = Some t" and "run self = Some r"
  shows "paced_from (calls self) (calls (state_of (poll_loop fuel w k self)))"
  using assms
proof (induction fuel arbitrary: k self)
  case 0
  show ?case by (simp add: paced_from_refl)
next
  case (Suc fuel)
  define self1 where "self1 = self\<lparr> calls := calls self
      @ [Sleep 5, RunsRetrieve (thread_ident t) (run_ident r)] \<rparr>"
  have s1: "paced_from (calls self) (calls self1)"
    by (simp add: self1_def paced_from_def)
  have k1: "thread self1 = Some t" "run self1 = Some r"
    using Suc.prems by (simp_all add: self1_def)
  consider (completed) "status (runs_retrieve w k) = ''completed''"
    | (action) "status (runs_retrieve w k) \<noteq> ''completed''"
               "status (runs_retrieve w k) = ''requires_action''"
    | (other) "status (runs_retrieve w k) \<noteq> ''completed''"
              "status (runs_retrieve w k) \<noteq> ''requires_action''"
    by blast
  then show ?case
  proof cases
    case completed
    then have "poll_loop (Suc fuel) w k self = process_message w self1"
      using Suc.prems by (simp add: self1_def Let_def)
    then show ?thesis
      using paced_from_trans [OF s1 process_message_paced [of self1 w]] by simp
  next
    case other
    then have "poll_loop (Suc fuel) w k self = poll_loop fuel w (Suc k) self1"
      using Suc.prems by (simp add: self1_def Let_def)
    then show ?thesis
      using paced_from_trans [OF s1 Suc.IH [OF k1, of "Suc k"]] by simp
  next
    case action
    show ?thesis
    proof (cases "required_action (runs_retrieve w k)")
      case None
      then have "poll_loop (Suc fuel) w k self = Raised AttributeError self1"
        using Suc.prems action by (simp add: self1_def Let_def)
      then show ?thesis using s1 by simp
    next
      case (Some tool_calls)
      have s2: "paced_from (calls self)
                  (calls (state_of (call_required_functions w self1 tool_calls)))"
        using paced_from_trans [OF s1 call_required_functions_paced [of self1 w tool_calls]] .
      show ?thesis
      proof (cases "call_required_functions w self1 tool_calls")
        case (Returned self2)
        then have k2: "thread self2 = Some t" "run self2 = Some r"
          using call_required_functions_keeps [of w self1 tool_calls self2] k1 by simp_all
        have "poll_loop (Suc fuel) w k self = poll_loop fuel w (Suc k) self2"
          using Suc.prems action Some Returned by (simp add: self1_def Let_def)
        moreover have "paced_from (calls self) (calls self2)"
          using s2 Returned by simp
        ultimately show ?thesis
          using paced_from_trans [OF _ Suc.IH [OF k2, of "Suc k"]] by simp
      next
        case (Raised e self2)
        then have "poll_loop (Suc fuel) w k self = Raised e self2"
          using Suc.prems action Some by (simp add: self1_def Let_def)
        then show ?thesis using s2 Raised by simp
      next
        case (Running self2)
        then show ?thesis using call_required_functions_not_Running by blast
      qed
    qed
  qed
qed

lemma poll_loop_idle:
  assumes "thread self = Some t" and "run self = Some r"
      and "\<forall>j. k \<le> j \<and> j < k + fuel \<longrightarrow>
             status (runs_retrieve w j) \<noteq> ''completed''
             \<and> status (runs_retrieve w j) \<noteq> ''requires_action''"
  shows "poll_loop fuel w k self = Running (self\<lparr> calls := calls self @ polls fuel t r \<rparr>)"
  using assms
proof (induction fuel arbitrary: k self)
  case 0
  then show ?case by (simp add: polls_def)
next
  case (Suc fuel)
  define self1 where "self1 = self\<lparr> calls := calls self
      @ [Sleep 5, RunsRetrieve (thread_ident t) (run_ident r)] \<rparr>"
  have here: "status (runs_retrieve w k) \<noteq> ''completed''"
             "status (runs_retrieve w k) \<noteq> ''requires_action''"
    using Suc.prems(3) by simp_all
  have later: "\<forall>j. Suc k \<le> j \<and> j < Suc k + fuel \<longrightarrow>
             status (runs_retrieve w j) \<noteq> ''completed''
             \<and> status (runs_retrieve w j) \<noteq> ''requires_action''"
    using Suc.prems(3) by simp
  have "poll_loop (Suc fuel) w k self = poll_loop fuel w (Suc k) self1"
    using poll_loop_step [OF Suc.prems(1,2) here] by (simp add: self1_def)
  also have "\<dots> = Running (self1\<lparr> calls := calls self1 @ polls fuel t r \<rparr>)"
    using Suc.IH [of self1 "Suc k"] Suc.prems(1,2) later by (simp add: self1_def)
  also have "self1\<lparr> calls := calls self1 @ polls fuel t r \<rparr>
               = self\<lparr> calls := calls self @ polls (Suc fuel) t r \<rparr>"
    by (simp add: self1_def polls_Suc)
  finally show ?case .
qed

lemma poll_loop_busy:
  assumes "thread self = Some t" and "run self = Some r"
      and "\<forall>j. status (runs_retrieve w j) \<noteq> ''completed''"
      and "\<forall>j. status (runs_retrieve w j) = ''requires_action'' \<longrightarrow>
             (\<exists>tool_calls outs. required_action (runs_retrieve w j) = Some tool_calls
                \<and> for_each (resolve_call w) tool_calls = Inr outs)"
  shows "\<exists>s. poll_loop fuel w k self = Running s"
  using assms(1,2)
proof (induction fuel arbitrary: k self)
  case 0
  show ?case by simp
next
  case (Suc fuel)
  define self1 where "self1 = self\<lparr> calls := calls self
      @ [Sleep 5, RunsRetrieve (thread_ident t) (run_ident r)] \<rparr>"
  have s1: "thread self1 = Some t" "run self1 = Some r"
    using Suc.prems by (simp_all add: self1_def)
  have nc: "status (runs_retrieve w k) \<noteq> ''completed''"
    using assms(3) by simp
  show ?case
  proof (cases "status (runs_retrieve w k) = ''requires_action''")
    case False
    then have "poll_loop (Suc fuel) w k self = poll_loop fuel w (Suc k) self1"
      using poll_loop_step [OF Suc.prems nc] by (simp add: self1_def)
    then show ?thesis using Suc.IH [OF s1, of "Suc k"] by simp
  next
    case True
    then obtain tool_calls outs where
        tc: "required_action (runs_retrieve w k) = Some tool_calls"
        and o: "for_each (resolve_call w) tool_calls = Inr outs"
      using assms(4) by blast
    define self2 where "self2 = self1\<lparr> calls := calls self1
        @ [SubmitToolOutputs (thread_ident t) (run_ident r) outs] \<rparr>"
    have c: "call_required_functions w self1 tool_calls = Returned self2"
      using call_required_functions_submits [OF s1(2) s1(1) o] by (simp add: self2_def)
    have s2: "thread self2 = Some t" "run self2 = Some r"
      using s1 by (simp_all add: self2_def)
    have "poll_loop (Suc fuel) w k self = poll_loop fuel w (Suc k) self2"
      using Suc.prems nc True tc c by (simp add: self1_def Let_def)
    then show ?thesis using Suc.IH [OF s2, of "Suc k"] by simp
  qed
qed

lemma process_sentiment_results_paced: "paced_from (calls self) (calls (state_of (process_sentiment_results w self)))"
  by (auto simp: process_sentiment_results_def Let_def paced_from_def
           split: option.splits list.splits content_block.splits)

lemma call_sentiment_functions_paced: "paced_from (calls self) (calls (state_of (call_sentiment_functions w self tool_calls)))"
  by (auto simp: call_sentiment_functions_def paced_from_def split: option.splits sum.splits)

lemma call_sentiment_functions_not_Running: "call_sentiment_functions w self tool_calls \<noteq> Running s"
  by (auto simp: call_sentiment_functions_def split: option.splits sum.splits)

lemma sentiment_poll_loop_step:
  assumes "thread self = Some t" and "run self = Some r"
      and "status (runs_retrieve w k) \<noteq> ''completed''"
      and "status (runs_retrieve w k) \<noteq> ''requires_action''"
  shows "sentiment_poll_loop (Suc fuel) w k self
           = sentiment_poll_loop fuel w (Suc k)
               (self\<lparr> calls := calls self
                  @ [Sleep 5, RunsRetrieve (thread_ident t) (run_ident r)] \<rparr>)"
  using assms by (simp add: Let_def)

lemma call_sentiment_functions_keeps:
  "call_sentiment_functions w self tool_calls = Returned s \<Longrightarrow> thread s = thread self \<and> run s = run self"
  by (auto simp: call_sentiment_functions_def split: option.splits sum.splits)

lemma sentiment_poll_loop_paced:
  assumes "thread self = Some t" and "run self = Some r"
  shows "paced_from (calls self) (calls (state_of (sentiment_poll_loop fuel w k self)))"
  using assms
proof (induction fuel arbitrary: k self)
  case 0
  show ?case by (simp add: paced_from_refl)
next
  case (Suc fuel)
  define self1 where "self1 = self\<lparr> calls := calls self
      @ [Sleep 5, RunsRetrieve (thread_ident t) (run_ident r)] \<rparr>"
  have s1: "paced_from (calls self) (calls self1)"
    by (simp add: self1_def paced_from_def)
  have k1: "thread self1 = Some t" "run self1 = Some r"
    using Suc.prems by (simp_all add: self1_def)
  consider (completed) "status (runs_retrieve w k) = ''completed''"
    | (action) "status (runs_retrieve w k) \<noteq> ''completed''"
               "status (runs_retrieve w k) = ''requires_action''"
    | (other) "status (runs_retrieve w k) \<noteq> ''completed''"
              "status (runs_retrieve w k) \<noteq> ''requires_action''"
    by blast
  then show ?case
  proof cases
    case completed
    then have "sentiment_poll_loop (Suc fuel) w k self = process_sentiment_results w self1"
      using Suc.prems by (simp add: self1_def Let_def)
    then show ?thesis
      using paced_from_trans [OF s1 process_sentiment_results_paced [of self1 w]] by simp
  next
    case other
    then have "sentiment_poll_loop (Suc fuel) w k self = sentiment_poll_loop fuel w (Suc k) self1"
      using Suc.prems by (simp add: self1_def Let_def)
    then show ?thesis
      using paced_from_trans [OF s1 Suc.IH [OF k1, of "Suc k"]] by simp
  next
    case action
    show ?thesis
    proof (cases "required_action (runs_retrieve w k)")
      case None
      then have "sentiment_poll_loop (Suc fuel) w k self = Raised AttributeError self1"
        using Suc.prems action by (simp add: self1_def Let_def)
      then show ?thesis using s1 by simp
    next
      case (Some tool_calls)
      have s2: "paced_from (calls self)
                  (calls (state_of (call_sentiment_functions w self1 tool_calls)))"
        using paced_from_trans [OF s1 call_sentiment_functions_paced [of self1 w tool_calls]] .
      show ?thesis
      proof (cases "call_sentiment_functions w self1 tool_calls")
        case (Returned self2)
        then have k2: "thread self2 = Some t" "run self2 = Some r"
          using call_sentiment_functions_keeps [of w self1 tool_calls self2] k1 by simp_all
        have "sentiment_poll_loop (Suc fuel) w k self = sentiment_poll_loop fuel w (Suc k) self2"
          using Suc.prems action Some Returned by (simp add: self1_def Let_def)
        moreover have "paced_from (calls self) (calls self2)"
          using s2 Returned by simp
        ultimately show ?thesis
          using paced_from_trans [OF _ Suc.IH [OF k2, of "Suc k"]] by simp
      next
        case (Raised e self2)
        then have "sentiment_poll_loop (Suc fuel) w k self = Raised e self2"
          using Suc.prems action Some by (simp add: self1_def Let_def)
        then show ?thesis using s2 Raised by simp
      next
        case (Running self2)
        then show ?thesis using call_sentiment_functions_not_Running by blast
      qed
    qed
  qed
qed

lemma sentiment_poll_loop_idle:
  assumes "thread self = Some t" and "run self = Some r"
      and "\<forall>j. k \<le> j \<and> j < k + fuel \<longrightarrow>
             status (runs_retrieve w j) \<noteq> ''completed''
             \<and> status (runs_retrieve w j) \<noteq> ''requires_action''"
  shows "sentiment_poll_loop fuel w k self = Running (self\<lparr> calls := calls self @ polls fuel t r \<rparr>)"
  using assms
proof (induction fuel arbitrary: k self)
  case 0
  then show ?case by (simp add: polls_def)
next
  case (Suc fuel)
  define self1 where "self1 = self\<lparr> calls := calls self
      @ [Sleep 5, RunsRetrieve (thread_ident t) (run_ident r)] \<rparr>"
  have here: "status (runs_retrieve w k) \<noteq> ''completed''"
             "status (runs_retrieve w k) \<noteq> ''requires_action''"
    using Suc.prems(3) by simp_all
  have later: "\<forall>j. Suc k \<le> j \<and> j < Suc k + fuel \<longrightarrow>
             status (runs_retrieve w j) \<noteq> ''completed''
             \<and> status (runs_retrieve w j) \<noteq> ''requires_action''"
    using Suc.prems(3) by simp
  have "sentiment_poll_loop (Suc fuel) w k self = sentiment_poll_loop fuel w (Suc k) self1"
    using sentiment_poll_loop_step [OF Suc.prems(1,2) here] by (simp add: self1_def)
  also have "\<dots> = Running (self1\<lparr> calls := calls self1 @ polls fuel t r \<rparr>)"
    using Suc.IH [of self1 "Suc k"] Suc.prems(1,2) later by (simp add: self1_def)
  also have "self1\<lparr> calls := calls self1 @ polls fuel t r \<rparr>
               = self\<lparr> calls := calls self @ polls (Suc fuel) t r \<rparr>"
    by (simp add: self1_def polls_Suc)
  finally show ?case .
qed

lemma sentiment_poll_loop_busy:
  assumes "thread self = Some t" and "run self = Some r"
      and "\<forall>j. status (runs_retrieve w j) \<noteq> ''completed''"
      and "\<forall>j. status (runs_retrieve w j) = ''requires_action'' \<longrightarrow>
             (\<exists>tool_calls outs. required_action (runs_retrieve w j) = Some tool_calls
                \<and> for_each (resolve_sentiment_call w) tool_calls = Inr outs)"
  shows "\<exists>s. sentiment_poll_loop fuel w k self = Running s"
  using assms(1,2)
proof (induction fuel arbitrary: k self)
  case 0
  show ?case by simp
next
  case (Suc fuel)
  define self1 where "self1 = self\<lparr> calls := calls self
      @ [Sleep 5, RunsRetrieve (thread_ident t) (run_ident r)] \<rparr>"
  have s1: "thread self1 = Some t" "run self1 = Some r"
    using Suc.prems by (simp_all add: self1_def)
  have nc: "status (runs_retrieve w k) \<noteq> ''completed''"
    using assms(3) by simp
  show ?case
  proof (cases "status (runs_retrieve w k) = ''requires_action''")
    case False
    then have "sentiment_poll_loop (Suc fuel) w k self = sentiment_poll_loop fuel w (Suc k) self1"
      using sentiment_poll_loop_step [OF Suc.prems nc] by (simp add: self1_def)
    then show ?thesis using Suc.IH [OF s1, of "Suc k"] by simp
  next
    case True
    then obtain tool_calls outs where
        tc: "required_action (runs_retrieve w k) = Some tool_calls"
        and o: "for_each (resolve_sentiment_call w) tool_calls = Inr outs"
      using assms(4) by blast
    define self2 where "self2 = self1\<lparr> calls := calls self1
        @ [SubmitToolOutputs (thread_ident t) (run_ident r) outs] \<rparr>"
    have c: "call_sentiment_functions w self1 tool_calls = Returned self2"
      using call_sentiment_functions_submits [OF s1(2) s1(1) o] by (simp add: self2_def)
    have s2: "thread self2 = Some t" "run self2 = Some r"
      using s1 by (simp_all add: self2_def)
    have "sentiment_poll_loop (Suc fuel) w k self = sentiment_poll_loop fuel w (Suc k) self2"
      using Suc.prems nc True tc c by (simp add: self1_def Let_def)
    then show ?thesis using Suc.IH [OF s2, of "Suc k"] by simp
  qed
qed


text \<open>
  C3, as claimed: once the polled status is \<^verbatim>\<open>failed\<close> the loop terminates and the failure is
  surfaced. It is not: against a service that answers \<^verbatim>\<open>failed\<close>, after three iterations the
  loop has slept and polled three times, has stored no summary, has raised nothing and is
  still running.
\<close>

theorem failed_run_still_polled_counterexample:
  "status (runs_retrieve (world net_down always_failed) 0) = ''failed''
   \<and> wait_for_run_completion 3 (world net_down always_failed) manager1
       = Running (manager1\<lparr> calls :=
           [ThreadsCreate,
            Sleep 5, RunsRetrieve ''thread_0'' ''run_1'',
            Sleep 5, RunsRetrieve ''thread_0'' ''run_1'',
            Sleep 5, RunsRetrieve ''thread_0'' ''run_1''] \<rparr>)"
  by code_simp

text \<open>
  C3, amended. A polled status \<^verbatim>\<open>failed\<close> produces no output and no local action, and it
  neither ends the loop nor raises anything: the loop has only slept and polled, and goes
  on with the next poll. While the polls are answered \<^verbatim>\<open>failed\<close> the loop is still running
  after any number of iterations, with nothing stored or submitted.
\<close>

theorem failed_status_keeps_polling:
  assumes "thread self = Some t" and "run self = Some r"
      and "thread self' = Some t'" and "run self' = Some r'"
  shows "(status (runs_retrieve w k) = ''failed'' \<longrightarrow>
            poll_loop (Suc fuel) w k self
              = poll_loop fuel w (Suc k)
                  (self\<lparr> calls := calls self
                     @ [Sleep 5, RunsRetrieve (thread_ident t) (run_ident r)] \<rparr>))
       \<and> ((\<forall>j<fuel. status (runs_retrieve w j) = ''failed'') \<longrightarrow>
            wait_for_run_completion fuel w self
              = Running (self\<lparr> calls := calls self @ polls fuel t r \<rparr>))
       \<and> (status (runs_retrieve w k) = ''failed'' \<longrightarrow>
            sentiment_poll_loop (Suc fuel) w k self'
              = sentiment_poll_loop fuel w (Suc k)
                  (self'\<lparr> calls := calls self'
                     @ [Sleep 5, RunsRetrieve (thread_ident t') (run_ident r')] \<rparr>))
       \<and> ((\<forall>j<fuel. status (runs_retrieve w j) = ''failed'') \<longrightarrow>
            wait_for_sentiment_completion fuel w self'
              = Running (self'\<lparr> calls := calls self' @ polls fuel t' r' \<rparr>))"
proof -
  have w1: "wait_for_run_completion fuel w self = poll_loop fuel w 0 self"
    using assms(1,2) by (simp add: wait_for_run_completion_def)
  have w2: "wait_for_sentiment_completion fuel w self' = sentiment_poll_loop fuel w 0 self'"
    using assms(3,4) by (simp add: wait_for_sentiment_completion_def)
  have a1: "status (runs_retrieve w k) = ''failed'' \<longrightarrow>
            poll_loop (Suc fuel) w k self
              = poll_loop fuel w (Suc k)
                  (self\<lparr> calls := calls self
                     @ [Sleep 5, RunsRetrieve (thread_ident t) (run_ident r)] \<rparr>)"
    using poll_loop_step [OF assms(1,2), of w k fuel] by simp
  have a2: "status (runs_retrieve w k) = ''failed'' \<longrightarrow>
            sentiment_poll_loop (Suc fuel) w k self'
              = sentiment_poll_loop fuel w (Suc k)
                  (self'\<lparr> calls := calls self'
                     @ [Sleep 5, RunsRetrieve (thread_ident t') (run_ident r')] \<rparr>)"
    using sentiment_poll_loop_step [OF assms(3,4), of w k fuel] by simp
  have b1: "(\<forall>j<fuel. status (runs_retrieve w j) = ''failed'') \<longrightarrow>
            wait_for_run_completion fuel w self
              = Running (self\<lparr> calls := calls self @ polls fuel t r \<rparr>)"
    using poll_loop_idle [OF assms(1,2), of 0 fuel w] by (simp add: w1)
  have b2: "(\<forall>j<fuel. status (runs_retrieve w j) = ''failed'') \<longrightarrow>
            wait_for_sentiment_completion fuel w self'
              = Running (self'\<lparr> calls := calls self' @ polls fuel t' r' \<rparr>)"
    using sentiment_poll_loop_idle [OF assms(3,4), of 0 fuel w] by (simp add: w2)
  from a1 b1 a2 b2 show ?thesis by (intro conjI)
qed

theorem failed_status_keeps_polling_witness:
  "thread manager1 = Some (Thread ''thread_0'')
   \<and> run manager1 = Some (run_answer ''in_progress'')
   \<and> status (runs_retrieve (world net_down always_failed) 0) = ''failed''
   \<and> status (runs_retrieve (world net_down always_failed) 1) = ''failed''
   \<and> wait_for_run_completion 2 (world net_down always_failed) manager1
       = Running (manager1\<lparr> calls :=
           [ThreadsCreate, Sleep 5, RunsRetrieve ''thread_0'' ''run_1'',
            Sleep 5, RunsRetrieve ''thread_0'' ''run_1''] \<rparr>)
   \<and> wait_for_sentiment_completion 2 (world net_down always_failed) sentiment1
       = Running (sentiment1\<lparr> calls :=
           [ThreadsCreate, Sleep 5, RunsRetrieve ''thread_0'' ''run_1'',
            Sleep 5, RunsRetrieve ''thread_0'' ''run_1''] \<rparr>)"
proof -
  have r: "thread manager1 = Some (Thread ''thread_0'')"
          "run manager1 = Some (run_answer ''in_progress'')"
          "thread sentiment1 = Some (Thread ''thread_0'')"
          "run sentiment1 = Some (run_answer ''in_progress'')"
    by (simp_all add: manager1_def sentiment1_def)
  have f: "\<forall>j<2. status (runs_retrieve (world net_down always_failed) j) = ''failed''"
    by (simp add: world_def always_failed_def run_answer_def)
  have p: "calls manager1 @ polls 2 (Thread ''thread_0'') (run_answer ''in_progress'')
             = [ThreadsCreate, Sleep 5, RunsRetrieve ''thread_0'' ''run_1'',
                Sleep 5, RunsRetrieve ''thread_0'' ''run_1'']"
          "calls sentiment1 @ polls 2 (Thread ''thread_0'') (run_answer ''in_progress'')
             = [ThreadsCreate, Sleep 5, RunsRetrieve ''thread_0'' ''run_1'',
                Sleep 5, RunsRetrieve ''thread_0'' ''run_1'']"
    by code_simp+
  note T = failed_status_keeps_polling [OF r, where w = "world net_down always_failed"
             and fuel = 2 and k = 0]
  have run2: "wait_for_run_completion 2 (world net_down always_failed) manager1
       = Running (manager1\<lparr> calls :=
           [ThreadsCreate, Sleep 5, RunsRetrieve ''thread_0'' ''run_1'',
            Sleep 5, RunsRetrieve ''thread_0'' ''run_1''] \<rparr>)"
    using T f by (simp add: p)
  have run2': "wait_for_sentiment_completion 2 (world net_down always_failed) sentiment1
       = Running (sentiment1\<lparr> calls :=
           [ThreadsCreate, Sleep 5, RunsRetrieve ''thread_0'' ''run_1'',
            Sleep 5, RunsRetrieve ''thread_0'' ''run_1''] \<rparr>)"
    using T f by (simp add: p)
  have f0: "status (runs_retrieve (world net_down always_failed) 0) = ''failed''"
           "status (runs_retrieve (world net_down always_failed) 1) = ''failed''"
    using f by simp_all
  from r(1,2) f0 run2 run2' show ?thesis by (intro conjI)
qed

text \<open>
  C8. Every status check of the loop comes directly after a sleep of 5, whatever the answers
  and however many iterations have passed, and the loop makes no other sleep. Nothing bounds
  the number of iterations: if no poll is ever answered \<^verbatim>\<open>completed\<close> or \<^verbatim>\<open>requires_action\<close>, the
  loop is still running after any number of iterations, having done nothing but sleep and
  poll; the same holds if no poll is ever answered \<^verbatim>\<open>completed\<close> and every requested batch
  of callbacks resolves.
\<close>

theorem poll_loop_fixed_interval_unbounded:
  "paced_from (calls self) (calls (state_of (wait_for_run_completion fuel w self)))
   \<and> paced_from (calls self') (calls (state_of (wait_for_sentiment_completion fuel w self')))
   \<and> (thread self = Some t \<and> run self = Some r
        \<and> (\<forall>j. status (runs_retrieve w j) \<noteq> ''completed''
                \<and> status (runs_retrieve w j) \<noteq> ''requires_action'') \<longrightarrow>
        wait_for_run_completion fuel w self
          = Running (self\<lparr> calls := calls self @ polls fuel t r \<rparr>))
   \<and> (thread self' = Some t' \<and> run self' = Some r'
        \<and> (\<forall>j. status (runs_retrieve w j) \<noteq> ''completed''
                \<and> status (runs_retrieve w j) \<noteq> ''requires_action'') \<longrightarrow>
        wait_for_sentiment_completion fuel w self'
          = Running (self'\<lparr> calls := calls self' @ polls fuel t' r' \<rparr>))
   \<and> (thread self = Some t \<and> run self = Some r
        \<and> (\<forall>j. status (runs_retrieve w j) \<noteq> ''completed'')
        \<and> (\<forall>j. status (runs_retrieve w j) = ''requires_action'' \<longrightarrow>
               (\<exists>tool_calls outs. required_action (runs_retrieve w j) = Some tool_calls
                  \<and> for_each (resolve_call w) tool_calls = Inr outs)) \<longrightarrow>
        (\<exists>s. wait_for_run_completion fuel w self = Running s))
   \<and> (thread self' = Some t' \<and> run self' = Some r'
        \<and> (\<forall>j. status (runs_retrieve w j) \<noteq> ''completed'')
        \<and> (\<forall>j. status (runs_retrieve w j) = ''requires_action'' \<longrightarrow>
               (\<exists>tool_calls outs. required_action (runs_retrieve w j) = Some tool_calls
                  \<and> for_each (resolve_sentiment_call w) tool_calls = Inr outs)) \<longrightarrow>
        (\<exists>s. wait_for_sentiment_completion fuel w self' = Running s))"
proof (intro conjI impI)
  show "paced_from (calls self) (calls (state_of (wait_for_run_completion fuel w self)))"
  proof (cases "thread self \<noteq> None \<and> run self \<noteq> None")
    case True
    then obtain t0 r0 where "thread self = Some t0" "run self = Some r0" by auto
    from poll_loop_paced [OF this, of fuel w 0] True show ?thesis
      by (simp add: wait_for_run_completion_def)
  next
    case False
    then have "wait_for_run_completion fuel w self = Returned self"
      by (auto simp: wait_for_run_completion_def)
    then show ?thesis by (simp add: paced_from_refl)
  qed
next
  show "paced_from (calls self') (calls (state_of (wait_for_sentiment_completion fuel w self')))"
  proof (cases "thread self' \<noteq> None \<and> run self' \<noteq> None")
    case True
    then obtain t0 r0 where "thread self' = Some t0" "run self' = Some r0" by auto
    from sentiment_poll_loop_paced [OF this, of fuel w 0] True show ?thesis
      by (simp add: wait_for_sentiment_completion_def)
  next
    case False
    then have "wait_for_sentiment_completion fuel w self' = Returned self'"
      by (auto simp: wait_for_sentiment_completion_def)
    then show ?thesis by (simp add: paced_from_refl)
  qed
next
  assume a: "thread self = Some t \<and> run self = Some r
        \<and> (\<forall>j. status (runs_retrieve w j) \<noteq> ''completed''
                \<and> status (runs_retrieve w j) \<noteq> ''requires_action'')"
  then show "wait_for_run_completion fuel w self
          = Running (self\<lparr> calls := calls self @ polls fuel t r \<rparr>)"
    using poll_loop_idle [of self t r 0 fuel w] by (simp add: wait_for_run_completion_def)
next
  assume a: "thread self' = Some t' \<and> run self' = Some r'
        \<and> (\<forall>j. status (runs_retrieve w j) \<noteq> ''completed''
                \<and> status (runs_retrieve w j) \<noteq> ''requires_action'')"
  then show "wait_for_sentiment_completion fuel w self'
          = Running (self'\<lparr> calls := calls self' @ polls fuel t' r' \<rparr>)"
    using sentiment_poll_loop_idle [of self' t' r' 0 fuel w]
    by (simp add: wait_for_sentiment_completion_def)
next
  assume a: "thread self = Some t \<and> run self = Some r
        \<and> (\<forall>j. status (runs_retrieve w j) \<noteq> ''completed'')
        \<and> (\<forall>j. status (runs_retrieve w j) = ''requires_action'' \<longrightarrow>
               (\<exists>tool_calls outs. required_action (runs_retrieve w j) = Some tool_calls
                  \<and> for_each (resolve_call w) tool_calls = Inr outs))"
  then have "\<exists>s. poll_loop fuel w 0 self = Running s"
    using poll_loop_busy [of self t r w fuel 0] by blast
  with a show "\<exists>s. wait_for_run_completion fuel w self = Running s"
    by (simp add: wait_for_run_completion_def)
next
  assume a: "thread self' = Some t' \<and> run self' = Some r'
        \<and> (\<forall>j. status (runs_retrieve w j) \<noteq> ''completed'')
        \<and> (\<forall>j. status (runs_retrieve w j) = ''requires_action'' \<longrightarrow>
               (\<exists>tool_calls outs. required_action (runs_retrieve w j) = Some tool_calls
                  \<and> for_each (resolve_sentiment_call w) tool_calls = Inr outs))"
  then have "\<exists>s. sentiment_poll_loop fuel w 0 self' = Running s"
    using sentiment_poll_loop_busy [of self' t' r' w fuel 0] by blast
  with a show "\<exists>s. wait_for_sentiment_completion fuel w self' = Running s"
    by (simp add: wait_for_sentiment_completion_def)
qed


theorem poll_loop_fixed_interval_unbounded_witness:
  "thread manager1 = Some (Thread ''thread_0'')
   \<and> run manager1 = Some (run_answer ''in_progress'')
   \<and> (\<forall>j. status (runs_retrieve (world net_down always_failed) j) \<noteq> ''completed''
           \<and> status (runs_retrieve (world net_down always_failed) j) \<noteq> ''requires_action'')
   \<and> wait_for_run_completion 3 (world net_down always_failed) manager1
       = Running (manager1\<lparr> calls := calls manager1
           @ polls 3 (Thread ''thread_0'') (run_answer ''in_progress'') \<rparr>)
   \<and> wait_for_sentiment_completion 3 (world net_down always_failed) sentiment1
       = Running (sentiment1\<lparr> calls := calls sentiment1
           @ polls 3 (Thread ''thread_0'') (run_answer ''in_progress'') \<rparr>)
   \<and> (\<exists>s. wait_for_run_completion 3 (world net_down always_failed) manager1 = Running s)
   \<and> paced_from (calls manager1)
        (calls (state_of
           (wait_for_run_completion 3 (world (net_ok [article_complete]) scripted) manager1)))"
proof -
  have r: "thread manager1 = Some (Thread ''thread_0'')"
          "run manager1 = Some (run_answer ''in_progress'')"
          "thread sentiment1 = Some (Thread ''thread_0'')"
          "run sentiment1 = Some (run_answer ''in_progress'')"
    by (simp_all add: manager1_def sentiment1_def)
  have f: "\<forall>j. status (runs_retrieve (world net_down always_failed) j) \<noteq> ''completed''
           \<and> status (runs_retrieve (world net_down always_failed) j) \<noteq> ''requires_action''"
    by (simp add: world_def always_failed_def run_answer_def)
  note T = poll_loop_fixed_interval_unbounded [where w = "world net_down always_failed"
             and fuel = 3 and self = manager1 and self' = sentiment1
             and t = "Thread ''thread_0''" and t' = "Thread ''thread_0''"
             and r = "run_answer ''in_progress''" and r' = "run_answer ''in_progress''"]
  note U = poll_loop_fixed_interval_unbounded [where w = "world (net_ok [article_complete]) scripted"
             and fuel = 3 and self = manager1 and self' = sentiment1]
  have a: "wait_for_run_completion 3 (world net_down always_failed) manager1
       = Running (manager1\<lparr> calls := calls manager1
           @ polls 3 (Thread ''thread_0'') (run_answer ''in_progress'') \<rparr>)"
    using T r f by blast
  have b: "wait_for_sentiment_completion 3 (world net_down always_failed) sentiment1
       = Running (sentiment1\<lparr> calls := calls sentiment1
           @ polls 3 (Thread ''thread_0'') (run_answer ''in_progress'') \<rparr>)"
    using T r f by blast
  have c: "\<exists>s. wait_for_run_completion 3 (world net_down always_failed) manager1 = Running s"
    using a by blast
  have d: "paced_from (calls manager1)
        (calls (state_of
           (wait_for_run_completion 3 (world (net_ok [article_complete]) scripted) manager1)))"
    using U by blast
  from r(1,2) f a b c d show ?thesis by (intro conjI)
qed

section \<open>Parsing the stored sentiment analysis\<close>

lemma py_in_iff: "py_in needle hay \<longleftrightarrow> (\<exists>before after. hay = before @ needle @ after)"
proof (induction hay)
  case Nil
  show ?case by auto
next
  case (Cons c cs)
  show ?case
  proof
    assume "py_in needle (c # cs)"
    then consider "prefix needle (c # cs)" | "py_in needle cs" by auto
    then show "\<exists>before after. c # cs = before @ needle @ after"
    proof cases
      case 1
      then obtain after where "c # cs = needle @ after" by (auto simp: prefix_def)
      then have "c # cs = [] @ needle @ after" by simp
      then show ?thesis by blast
    next
      case 2
      then obtain before after where "cs = before @ needle @ after" using Cons.IH by blast
      then have "c # cs = (c # before) @ needle @ after" by simp
      then show ?thesis by blast
    qed
  next
    assume "\<exists>before after. c # cs = before @ needle @ after"
    then obtain before after where e: "c # cs = before @ needle @ after" by blast
    show "py_in needle (c # cs)"
    proof (cases before)
      case Nil
      with e have "prefix needle (c # cs)" by (simp add: prefix_def)
      then show ?thesis by simp
    next
      case (Cons b bs)
      with e have "cs = bs @ needle @ after" by simp
      then have "py_in needle cs" using Cons.IH by blast
      then show ?thesis by simp
    qed
  qed
qed

text \<open>
  C10. With no analysis stored (\<^verbatim>\<open>None\<close> or the empty string) \<open>parse_sentiment_data\<close> returns
  \<^verbatim>\<open>None\<close>. For a stored text it returns a record whose score is one of 0.8, 0.5, 0.3, -0.8,
  -0.5, -0.3, 0 (so within [-1, 1]), whose confidence is 85 and whose analysis is the text;
  the category comes from substring tests on the lowered text in which \<^verbatim>\<open>positive\<close> is tested
  first: a text containing it is Positive (with a positive score) even if it contains
  \<^verbatim>\<open>negative\<close> too; otherwise one containing \<^verbatim>\<open>negative\<close> is Negative (negative score);
  otherwise it is Neutral with score 0.
\<close>

theorem parse_sentiment_data_result:
  "(sentiment_analysis self = None \<or> sentiment_analysis self = Some [] \<longrightarrow>
      parse_sentiment_data self = None)
   \<and> (sentiment_analysis self = Some text \<and> text \<noteq> [] \<longrightarrow>
        (\<exists>d. parse_sentiment_data self = Some d
           \<and> score d \<in> {0.8, 0.5, 0.3, - 0.8, - 0.5, - 0.3, 0}
           \<and> - 1 \<le> score d \<and> score d \<le> 1
           \<and> confidence d = 85
           \<and> analysis d = text
           \<and> (py_in ''positive'' (lower text) \<longrightarrow> category d = ''Positive'' \<and> 0 < score d)
           \<and> (\<not> py_in ''positive'' (lower text) \<and> py_in ''negative'' (lower text) \<longrightarrow>
                category d = ''Negative'' \<and> score d < 0)
           \<and> (\<not> py_in ''positive'' (lower text) \<and> \<not> py_in ''negative'' (lower text) \<longrightarrow>
                category d = ''Neutral'' \<and> score d = 0)))"
  by (auto simp: parse_sentiment_data_def Let_def)

theorem parse_sentiment_data_result_witness:
  "sentiment_analysis (sentiment_of ''Very Positive overall, some negative notes'')
     = Some ''Very Positive overall, some negative notes''
   \<and> py_in ''positive'' (lower ''Very Positive overall, some negative notes'')
   \<and> py_in ''negative'' (lower ''Very Positive overall, some negative notes'')
   \<and> parse_sentiment_data (sentiment_of ''Very Positive overall, some negative notes'')
       = Some \<lparr> score = 0.8, category = ''Positive'', confidence = 85,
                analysis = ''Very Positive overall, some negative notes'' \<rparr>
   \<and> (\<exists>d. parse_sentiment_data (sentiment_of ''Mostly NEGATIVE coverage'') = Some d
          \<and> category d = ''Negative'' \<and> score d < 0 \<and> confidence d = 85)
   \<and> (\<exists>d. parse_sentiment_data (sentiment_of ''Mixed'') = Some d
          \<and> category d = ''Neutral'' \<and> score d = 0)
   \<and> parse_sentiment_data sentiment1 = None
   \<and> parse_sentiment_data (sentiment_of []) = None"
proof -
  have p1: "py_in ''positive'' (lower ''Very Positive overall, some negative notes'')"
           "py_in ''negative'' (lower ''Very Positive overall, some negative notes'')"
           "py_in ''very positive'' (lower ''Very Positive overall, some negative notes'')"
    by code_simp+
  have p2: "\<not> py_in ''positive'' (lower ''Mostly NEGATIVE coverage'')"
           "py_in ''negative'' (lower ''Mostly NEGATIVE coverage'')"
    by code_simp+
  have p3: "\<not> py_in ''positive'' (lower ''Mixed'')" "\<not> py_in ''negative'' (lower ''Mixed'')"
    by code_simp+
  have s: "\<And>text. sentiment_analysis (sentiment_of text) = Some text"
          "sentiment_analysis sentiment1 = None"
    by (simp_all add: sentiment_of_def sentiment1_def)
  have a: "parse_sentiment_data (sentiment_of ''Very Positive overall, some negative notes'')
       = Some \<lparr> score = 0.8, category = ''Positive'', confidence = 85,
                analysis = ''Very Positive overall, some negative notes'' \<rparr>"
    by (simp add: parse_sentiment_data_def Let_def s p1)
  have b: "\<exists>d. parse_sentiment_data (sentiment_of ''Mostly NEGATIVE coverage'') = Some d
          \<and> category d = ''Negative'' \<and> score d < 0 \<and> confidence d = 85"
    using parse_sentiment_data_result [of "sentiment_of ''Mostly NEGATIVE coverage''"
            "''Mostly NEGATIVE coverage''"] s p2
    by auto
  have c: "\<exists>d. parse_sentiment_data (sentiment_of ''Mixed'') = Some d
          \<and> category d = ''Neutral'' \<and> score d = 0"
    using parse_sentiment_data_result [of "sentiment_of ''Mixed''" "''Mixed''"] s p3
    by auto
  have d: "parse_sentiment_data sentiment1 = None"
    using parse_sentiment_data_result [of sentiment1 "[]"] s by simp
  have e: "parse_sentiment_data (sentiment_of []) = None"
    using parse_sentiment_data_result [of "sentiment_of []" "[]"] s by simp
  from s(1) p1(1,2) a b c d e show ?thesis by (intro conjI)
qed

end
